theory Spec2Isabelle
  imports Complex_Main
begin

section \<open>Data model of TGraph2D\<close>

text \<open>
  The development follows \<^verbatim>\<open>hist/hist/src/TGraph2D.cxx\<close>. \<^verbatim>\<open>Int_t\<close> values are
  integers, taken in the range where the arithmetic of the code does not overflow; the
  coordinates, the margin and the other \<^verbatim>\<open>Double_t\<close> parameters are numbers with exact
  arithmetic, compared by \<open>=\<close> where the code uses \<^verbatim>\<open>==\<close>. A \<^verbatim>\<open>Double_t\<close> that a query
  hands back can also be the quiet NaN of \<^verbatim>\<open>TMath::QuietNaN()\<close>, so results have the type
  \<open>Double_t\<close> below. A function whose C++ behaviour can be undefined (a read or write
  outside an array, a null pointer dereferenced, a cast to the wrong class) returns an
  option, \<open>None\<close> standing for the undefined behaviour.
\<close>

datatype Double_t = Num real | QuietNaN

text \<open>Messages printed through \<^verbatim>\<open>Error(location, text)\<close> and \<^verbatim>\<open>Warning(location, text)\<close>;
  both return to the caller.\<close>

datatype message = Error string string | Warning string string

text \<open>
  The two interpolator classes are defined outside this file. An interpolator object is
  represented by its class and by what its constructor and setters receive in
  \<^verbatim>\<open>CreateInterpolator\<close>: the graph it is attached to (the samples at that moment), the
  iteration bound (old class only) and the value for bins outside the hull.
\<close>

datatype interp_class = TGraphDelaunay | TGraphDelaunay2D

record interpolator =
  iClass :: interp_class
  iX :: "real list option"
  iY :: "real list option"
  iZ :: "real list option"
  iNpoints :: int
  iMaxIter :: "int option"
  iZout :: real

text \<open>
  A \<^verbatim>\<open>TH2D\<close> as far as TGraph2D uses it: the binning, the sequence of
  \<^verbatim>\<open>Fill(x, y, w)\<close> calls it has received, the number of entries, the stored minimum and
  maximum (\<open>-1111\<close> when unset), its list of functions and two flags.
\<close>

record TH2D =
  hName :: string
  hTitle :: string
  hNbinsX :: int
  hXmin :: real
  hXmax :: real
  hNbinsY :: int
  hYmin :: real
  hYmax :: real
  hFills :: "(real \<times> real \<times> Double_t) list"
  hEntries :: int
  hMinimum :: real
  hMaximum :: real
  hFunctions :: "interpolator list"
  hNoStats :: bool
  hSumw2 :: bool

type_synonym TDirectory = nat

record TGraph2D =
  fName :: string
  fTitle :: string
  fNpoints :: int
  fSize :: int
  fMargin :: real
  fNpx :: int
  fNpy :: int
  fDirectory :: "TDirectory option"
  fHistogram :: "TH2D option"
  fDelaunay :: "interpolator option"
  fMaximum :: real
  fMinimum :: real
  fX :: "real list option"
  fY :: "real list option"
  fZ :: "real list option"
  fZout :: real
  fMaxIter :: int
  fPainter :: "TH2D option"
  fFunctions :: "string list option"
  fUserHisto :: bool
  kOldInterpolation :: bool
  messages :: "message list"

section \<open>Construction\<close>

text \<open>\<^verbatim>\<open>TGraph2D::TGraph2D()\<close>. The bits of a new \<^verbatim>\<open>TObject\<close> are clear.\<close>

definition TGraph2D_default :: TGraph2D where
  "TGraph2D_default =
     \<lparr> fName = ''Graph2D'', fTitle = ''Graph2D'', fNpoints = 0, fSize = 0, fMargin = 0,
       fNpx = 40, fNpy = 40, fDirectory = None, fHistogram = None, fDelaunay = None,
       fMaximum = -1111, fMinimum = -1111, fX = None, fY = None, fZ = None,
       fZout = 0, fMaxIter = 100000, fPainter = None, fFunctions = Some [],
       fUserHisto = False, kOldInterpolation = False, messages = [] \<rparr>"

text \<open>
  \<^verbatim>\<open>new Double_t[n]\<close> gives \<open>n\<close> cells with unspecified contents; \<open>mem k\<close> says what
  each cell of the \<open>k\<close>-th allocation of a call happens to hold.
\<close>

definition new_array :: "(nat \<Rightarrow> real) \<Rightarrow> int \<Rightarrow> real list" where
  "new_array cells n = map cells [0..<nat n]"

text \<open>
  \<^verbatim>\<open>TGraph2D::Build(n)\<close>. The constructors run it on an object whose members, apart
  from the name, the title and \<open>fNpoints\<close>, are not yet initialised: \<open>g\<close> is that
  object. \<open>addDir\<close> is \<^verbatim>\<open>TH1::AddDirectoryStatus()\<close> and \<open>gDirectory\<close> the current
  directory; appending the graph to the directory changes the directory only.
\<close>

definition Build :: "(nat \<Rightarrow> nat \<Rightarrow> real) \<Rightarrow> bool \<Rightarrow> TDirectory option \<Rightarrow> int \<Rightarrow> TGraph2D \<Rightarrow> TGraph2D" where
  "Build mem addDir gDirectory n g =
     (if n \<le> 0 then
        g\<lparr>messages := messages g @ [Error ''TGraph2D'' ''Invalid number of points (%d)'']\<rparr>
      else
        g\<lparr> fSize := n, fMargin := 0, fNpx := 40, fNpy := 40,
           fDirectory := (if addDir then gDirectory else None),
           fHistogram := None, fDelaunay := None,
           fMaximum := -1111, fMinimum := -1111,
           fX := Some (new_array (mem 0) n), fY := Some (new_array (mem 1) n),
           fZ := Some (new_array (mem 2) n),
           fZout := 0, fMaxIter := 100000, fFunctions := Some [], fPainter := None,
           fUserHisto := False \<rparr>)"

text \<open>Writing \<open>a[i] = v\<close>; outside the allocation (or through a null pointer) the behaviour
  is undefined, which is \<open>None\<close>.\<close>

definition array_set :: "real list option \<Rightarrow> int \<Rightarrow> real \<Rightarrow> real list option" where
  "array_set a i v =
     (case a of None \<Rightarrow> None
      | Some xs \<Rightarrow> if 0 \<le> i \<and> nat i < length xs then Some (xs[nat i := v]) else None)"

text \<open>Reading \<open>a[i]\<close>, with \<open>None\<close> for the undefined cases.\<close>

definition array_get :: "real list option \<Rightarrow> int \<Rightarrow> real option" where
  "array_get a i =
     (case a of None \<Rightarrow> None
      | Some xs \<Rightarrow> if 0 \<le> i \<and> nat i < length xs then Some (xs ! nat i) else None)"

text \<open>The loop \<^verbatim>\<open>for (i = 0; i < fNpoints; ++i) { fX[i] = x[i]; fY[i] = y[i]; fZ[i] = z[i]; }\<close>
  of the array constructors, started at \<open>i\<close>. The caller's arrays are \<open>x\<close>, \<open>y\<close>, \<open>z\<close>.\<close>

function copy_points :: "int \<Rightarrow> real list option \<Rightarrow> real list option \<Rightarrow> real list option \<Rightarrow> TGraph2D
    \<Rightarrow> TGraph2D option" where
  "copy_points i x y z g =
     (if i < fNpoints g then
        (case (array_get x i, array_get y i, array_get z i) of
           (Some xi, Some yi, Some zi) \<Rightarrow>
             (case (array_set (fX g) i xi, array_set (fY g) i yi, array_set (fZ g) i zi) of
                (Some xs, Some ys, Some zs) \<Rightarrow>
                  copy_points (i + 1) x y z (g\<lparr>fX := Some xs, fY := Some ys, fZ := Some zs\<rparr>)
              | _ \<Rightarrow> None)
         | _ \<Rightarrow> None)
      else Some g)"
  by pat_completeness auto
termination
  by (relation "measure (\<lambda>(i, x, y, z, g). nat (fNpoints g - i))") auto

declare copy_points.simps [simp del]

text \<open>\<^verbatim>\<open>TGraph2D::TGraph2D(Int_t n, Double_t *x, Double_t *y, Double_t *z)\<close>; \<open>g0\<close> is the
  uninitialised object.\<close>

definition TGraph2D_arrays :: "(nat \<Rightarrow> nat \<Rightarrow> real) \<Rightarrow> bool \<Rightarrow> TDirectory option \<Rightarrow> TGraph2D \<Rightarrow> int
    \<Rightarrow> real list option \<Rightarrow> real list option \<Rightarrow> real list option \<Rightarrow> TGraph2D option" where
  "TGraph2D_arrays mem addDir gDirectory g0 n x y z =
     copy_points 0 x y z
       (Build mem addDir gDirectory n
          (g0\<lparr>fName := ''Graph2D'', fTitle := ''Graph2D'', fNpoints := n\<rparr>))"

text \<open>\<^verbatim>\<open>TGraph2D::TGraph2D(Int_t n)\<close>: the same loop storing zeros.\<close>

function zero_points :: "int \<Rightarrow> TGraph2D \<Rightarrow> TGraph2D option" where
  "zero_points i g =
     (if i < fNpoints g then
        (case (array_set (fX g) i 0, array_set (fY g) i 0, array_set (fZ g) i 0) of
           (Some xs, Some ys, Some zs) \<Rightarrow>
             zero_points (i + 1) (g\<lparr>fX := Some xs, fY := Some ys, fZ := Some zs\<rparr>)
         | _ \<Rightarrow> None)
      else Some g)"
  by pat_completeness auto
termination
  by (relation "measure (\<lambda>(i, g). nat (fNpoints g - i))") auto

declare zero_points.simps [simp del]

definition TGraph2D_n :: "(nat \<Rightarrow> nat \<Rightarrow> real) \<Rightarrow> bool \<Rightarrow> TDirectory option \<Rightarrow> TGraph2D \<Rightarrow> int
    \<Rightarrow> TGraph2D option" where
  "TGraph2D_n mem addDir gDirectory g0 n =
     zero_points 0
       (Build mem addDir gDirectory n
          (g0\<lparr>fName := ''Graph2D'', fTitle := ''Graph2D'', fNpoints := n\<rparr>))"

section \<open>Setters of the build parameters\<close>

text \<open>\<^verbatim>\<open>TGraph2D::SetNpx\<close> and \<^verbatim>\<open>TGraph2D::SetNpy\<close>.\<close>

definition SetNpx :: "int \<Rightarrow> TGraph2D \<Rightarrow> TGraph2D" where
  "SetNpx npx g =
     (let g1 =
        (if npx < 4 then
           g\<lparr>messages := messages g @
                [Warning ''SetNpx'' ''Number of points must be >4 && < 500, fNpx set to 4''],
             fNpx := 4\<rparr>
         else if npx > 500 then
           g\<lparr>messages := messages g @
                [Warning ''SetNpx'' ''Number of points must be >4 && < 500, fNpx set to 500''],
             fNpx := 500\<rparr>
         else g\<lparr>fNpx := npx\<rparr>)
      in if fHistogram g1 \<noteq> None then g1\<lparr>fHistogram := None, fDelaunay := None\<rparr> else g1)"

definition SetNpy :: "int \<Rightarrow> TGraph2D \<Rightarrow> TGraph2D" where
  "SetNpy npy g =
     (let g1 =
        (if npy < 4 then
           g\<lparr>messages := messages g @
                [Warning ''SetNpy'' ''Number of points must be >4 && < 500, fNpy set to 4''],
             fNpy := 4\<rparr>
         else if npy > 500 then
           g\<lparr>messages := messages g @
                [Warning ''SetNpy'' ''Number of points must be >4 && < 500, fNpy set to 500''],
             fNpy := 500\<rparr>
         else g\<lparr>fNpy := npy\<rparr>)
      in if fHistogram g1 \<noteq> None then g1\<lparr>fHistogram := None, fDelaunay := None\<rparr> else g1)"

text \<open>\<^verbatim>\<open>TGraph2D::SetMargin\<close>.\<close>

definition SetMargin :: "real \<Rightarrow> TGraph2D \<Rightarrow> TGraph2D" where
  "SetMargin m g =
     (let g1 =
        (if m < 0 \<or> m > 1 then
           g\<lparr>messages := messages g @
                [Warning ''SetMargin'' ''The margin must be >= 0 && <= 1, fMargin set to 0.1''],
             fMargin := 0.1\<rparr>
         else g\<lparr>fMargin := m\<rparr>)
      in if fHistogram g1 \<noteq> None then g1\<lparr>fHistogram := None, fDelaunay := None\<rparr> else g1)"

text \<open>\<^verbatim>\<open>TGraph2D::SetMarginBinsContent\<close>.\<close>

definition SetMarginBinsContent :: "real \<Rightarrow> TGraph2D \<Rightarrow> TGraph2D" where
  "SetMarginBinsContent z g =
     (let g1 = g\<lparr>fZout := z\<rparr>
      in if fHistogram g1 \<noteq> None then g1\<lparr>fHistogram := None, fDelaunay := None\<rparr> else g1)"

section \<open>Reading and changing the samples\<close>

text \<open>\<^verbatim>\<open>TGraph2D::GetPoint(i, x, y, z)\<close>. The three reference arguments come in with the
  caller's values and are returned next to the result.\<close>

definition GetPoint :: "TGraph2D \<Rightarrow> int \<Rightarrow> real \<Rightarrow> real \<Rightarrow> real \<Rightarrow> (int \<times> real \<times> real \<times> real) option" where
  "GetPoint g i x y z =
     (if i < 0 \<or> i \<ge> fNpoints g then Some (-1, x, y, z)
      else if fX g = None \<or> fY g = None \<or> fZ g = None then Some (-1, x, y, z)
      else
        (case (array_get (fX g) i, array_get (fY g) i, array_get (fZ g) i) of
           (Some xi, Some yi, Some zi) \<Rightarrow> Some (i, xi, yi, zi)
         | _ \<Rightarrow> None))"

text \<open>The loop of \<^verbatim>\<open>TGraph2D::RemovePoint\<close>, started at \<open>i\<close>.\<close>

function RemovePoint_loop :: "int \<Rightarrow> TGraph2D \<Rightarrow> TGraph2D option" where
  "RemovePoint_loop i g =
     (if i < fNpoints g - 1 then
        (case (array_get (fX g) (i + 1), array_get (fY g) (i + 1), array_get (fZ g) (i + 1)) of
           (Some xi, Some yi, Some zi) \<Rightarrow>
             (case (array_set (fX g) i xi, array_set (fY g) i yi, array_set (fZ g) i zi) of
                (Some xs, Some ys, Some zs) \<Rightarrow>
                  RemovePoint_loop (i + 1) (g\<lparr>fX := Some xs, fY := Some ys, fZ := Some zs\<rparr>)
              | _ \<Rightarrow> None)
         | _ \<Rightarrow> None)
      else Some g)"
  by pat_completeness auto
termination
  by (relation "measure (\<lambda>(i, g). nat (fNpoints g - 1 - i))") auto

declare RemovePoint_loop.simps [simp del]

text \<open>\<^verbatim>\<open>TGraph2D::RemovePoint(ipoint)\<close>: the returned value and the graph afterwards.\<close>

definition RemovePoint :: "TGraph2D \<Rightarrow> int \<Rightarrow> (int \<times> TGraph2D) option" where
  "RemovePoint g ipoint =
     (if ipoint < 0 then Some (-1, g)
      else if ipoint \<ge> fNpoints g then Some (-1, g)
      else
        (case RemovePoint_loop ipoint g of
           None \<Rightarrow> None
         | Some g1 \<Rightarrow>
             (let g2 = g1\<lparr>fNpoints := fNpoints g1 - 1\<rparr>;
                  g3 = (if fHistogram g2 \<noteq> None
                        then g2\<lparr>fHistogram := None, fDelaunay := None\<rparr> else g2)
              in Some (ipoint, g3))))"

text \<open>
  The re-allocation of one array in \<^verbatim>\<open>TGraph2D::SetPoint\<close>: a fresh array of \<open>newN\<close>
  cells; when the old array exists and \<open>fSize\<close> is not zero, its \<open>fSize\<close> cells are
  copied and the rest is zeroed.
\<close>

definition reallocate :: "(nat \<Rightarrow> real) \<Rightarrow> int \<Rightarrow> real list option \<Rightarrow> int \<Rightarrow> real list option" where
  "reallocate cells newN a oldN =
     (case a of
        None \<Rightarrow> Some (new_array cells newN)
      | Some xs \<Rightarrow>
          if oldN = 0 then Some (new_array cells newN)
          else if 0 < oldN \<and> nat oldN \<le> length xs \<and> oldN \<le> newN
          then Some (take (nat oldN) xs @ replicate (nat (newN - oldN)) 0)
          else None)"

text \<open>\<^verbatim>\<open>TGraph2D::SetPoint(n, x, y, z)\<close>.\<close>

definition SetPoint :: "(nat \<Rightarrow> nat \<Rightarrow> real) \<Rightarrow> int \<Rightarrow> real \<Rightarrow> real \<Rightarrow> real \<Rightarrow> TGraph2D \<Rightarrow> TGraph2D option" where
  "SetPoint mem n x y z g =
     (if n < 0 then Some g
      else
        (let g1 =
           (if fX g = None \<or> fY g = None \<or> fZ g = None \<or> n \<ge> fSize g then
              (let newN = max (2 * fSize g) (n + 1) in
               case (reallocate (mem 0) newN (fX g) (fSize g),
                     reallocate (mem 1) newN (fY g) (fSize g),
                     reallocate (mem 2) newN (fZ g) (fSize g)) of
                 (Some savex, Some savey, Some savez) \<Rightarrow>
                   Some (g\<lparr>fX := Some savex, fY := Some savey, fZ := Some savez, fSize := newN\<rparr>)
               | _ \<Rightarrow> None)
            else Some g)
         in case g1 of
              None \<Rightarrow> None
            | Some g2 \<Rightarrow>
                (case (array_set (fX g2) n x, array_set (fY g2) n y, array_set (fZ g2) n z) of
                   (Some xs, Some ys, Some zs) \<Rightarrow>
                     Some (g2\<lparr>fX := Some xs, fY := Some ys, fZ := Some zs,
                              fNpoints := max (fNpoints g2) (n + 1)\<rparr>)
                 | _ \<Rightarrow> None)))"

text \<open>The inner loop of \<^verbatim>\<open>TGraph2D::RemoveDuplicates\<close>, started at \<open>j\<close>, for the point
  \<open>(x, y)\<close> of the outer loop. After a removal \<open>j\<close> is decremented and the loop header
  increments it again.\<close>

function RemoveDuplicates_inner :: "real \<Rightarrow> real \<Rightarrow> int \<Rightarrow> TGraph2D \<Rightarrow> TGraph2D option" where
  "RemoveDuplicates_inner x y j g =
     (if j < fNpoints g then
        (case array_get (fX g) j of
           None \<Rightarrow> None
         | Some xj \<Rightarrow>
             if x = xj then
               (case array_get (fY g) j of
                  None \<Rightarrow> None
                | Some yj \<Rightarrow>
                    if y = yj then
                      (case RemovePoint g j of
                         None \<Rightarrow> None
                       | Some r \<Rightarrow> RemoveDuplicates_inner x y (j - 1 + 1) (snd r))
                    else RemoveDuplicates_inner x y (j + 1) g)
             else RemoveDuplicates_inner x y (j + 1) g)
      else Some g)"
  by pat_completeness auto
termination
proof (relation "measure (\<lambda>(x, y, j, g). nat (fNpoints g - j))", goal_cases)
  case 1
  show ?case by simp
next
  case (2 x y j g xj yj r)
  have keep: "RemovePoint_loop i h = Some h' \<Longrightarrow> fNpoints h' = fNpoints h" for i h h'
  proof (induction i h rule: RemovePoint_loop.induct)
    case (1 i h)
    show ?case
    proof (cases "i < fNpoints h - 1")
      case True
      with "1.prems" "1.IH" show ?thesis
        by (subst (asm) RemovePoint_loop.simps) (auto split: option.splits)
    next
      case False
      with "1.prems" show ?thesis by (simp add: RemovePoint_loop.simps)
    qed
  qed
  from 2 have "0 \<le> j"
    by (auto simp: array_get_def split: option.splits if_splits)
  with 2 keep have "fNpoints (snd r) = fNpoints g - 1"
    by (auto simp: RemovePoint_def Let_def split: option.splits if_splits)
  with 2 show ?case by simp
next
  case 3
  then show ?case by simp
next
  case 4
  then show ?case by simp
qed

declare RemoveDuplicates_inner.simps [simp del]

text \<open>The outer loop of \<^verbatim>\<open>TGraph2D::RemoveDuplicates\<close>, started at \<open>i\<close>.\<close>

function RemoveDuplicates_outer :: "int \<Rightarrow> TGraph2D \<Rightarrow> TGraph2D option" where
  "RemoveDuplicates_outer i g =
     (if i < fNpoints g then
        (case (array_get (fX g) i, array_get (fY g) i) of
           (Some x, Some y) \<Rightarrow>
             (case RemoveDuplicates_inner x y (i + 1) g of
                None \<Rightarrow> None
              | Some g1 \<Rightarrow> RemoveDuplicates_outer (i + 1) g1)
         | _ \<Rightarrow> None)
      else Some g)"
  by pat_completeness auto
termination
proof (relation "measure (\<lambda>(i, g). nat (fNpoints g - i))", goal_cases)
  case 1
  show ?case by simp
next
  case (2 i g a b x y g1)
  have loop: "RemovePoint_loop k h = Some h' \<Longrightarrow> fNpoints h' = fNpoints h" for k h h'
  proof (induction k h rule: RemovePoint_loop.induct)
    case (1 k h)
    show ?case
    proof (cases "k < fNpoints h - 1")
      case True
      with "1.prems" "1.IH" show ?thesis
        by (subst (asm) RemovePoint_loop.simps) (auto split: option.splits)
    next
      case False
      with "1.prems" show ?thesis by (simp add: RemovePoint_loop.simps)
    qed
  qed
  have rem: "RemovePoint h k = Some r \<Longrightarrow> fNpoints (snd r) \<le> fNpoints h" for h k r
    using loop by (auto simp: RemovePoint_def Let_def split: option.splits if_splits)
  have inner: "RemoveDuplicates_inner u v k h = Some h' \<Longrightarrow> fNpoints h' \<le> fNpoints h"
    for u v k h h'
  proof (induction u v k h rule: RemoveDuplicates_inner.induct)
    case (1 u v k h)
    show ?case
    proof (cases "k < fNpoints h")
      case False
      with "1.prems" show ?thesis by (simp add: RemoveDuplicates_inner.simps)
    next
      case True
      from "1.prems" True obtain xk where xk: "array_get (fX h) k = Some xk"
        by (subst (asm) RemoveDuplicates_inner.simps) (auto split: option.splits)
      show ?thesis
      proof (cases "u = xk")
        case False
        with "1.prems" True xk have "RemoveDuplicates_inner u v (k + 1) h = Some h'"
          by (subst (asm) RemoveDuplicates_inner.simps) simp
        with "1.IH"(3) True xk False show ?thesis by blast
      next
        case ux: True
        from "1.prems" True xk ux obtain yk where yk: "array_get (fY h) k = Some yk"
          by (subst (asm) RemoveDuplicates_inner.simps) (auto split: option.splits)
        show ?thesis
        proof (cases "v = yk")
          case False
          with "1.prems" True xk ux yk have "RemoveDuplicates_inner u v (k + 1) h = Some h'"
            by (subst (asm) RemoveDuplicates_inner.simps) simp
          with "1.IH"(2) True xk ux yk False show ?thesis by blast
        next
          case vy: True
          from "1.prems" True xk ux yk vy obtain r where
            r: "RemovePoint h k = Some r" "RemoveDuplicates_inner u v (k - 1 + 1) (snd r) = Some h'"
            by (subst (asm) RemoveDuplicates_inner.simps) (auto split: option.splits)
          from "1.IH"(1) True xk ux yk vy r have "fNpoints h' \<le> fNpoints (snd r)" by blast
          with rem [OF r(1)] show ?thesis by simp
        qed
      qed
    qed
  qed
  from 2 inner have "fNpoints g1 \<le> fNpoints g" by blast
  with 2 show ?case by simp
qed

declare RemoveDuplicates_outer.simps [simp del]

text \<open>\<^verbatim>\<open>TGraph2D::RemoveDuplicates()\<close>: the returned value and the graph afterwards.\<close>

definition RemoveDuplicates :: "TGraph2D \<Rightarrow> (int \<times> TGraph2D) option" where
  "RemoveDuplicates g =
     (case RemoveDuplicates_outer 0 g of
        None \<Rightarrow> None
      | Some g1 \<Rightarrow> Some (fNpoints g1, g1))"

section \<open>The interpolated histogram\<close>

text \<open>
  What TGraph2D calls in classes defined elsewhere and cannot be read off the \<open>TH2D\<close>
  record: the interpolators' \<^verbatim>\<open>ComputeZ\<close>, \<^verbatim>\<open>TH1::GetMinimum\<close> and
  \<^verbatim>\<open>TH1::GetMaximum\<close> (computed from the bin contents when no value is stored) and the
  histogram painter's \<^verbatim>\<open>GetContourList\<close>. They are parameters of the model.
\<close>

type_synonym TList = "(real \<times> real) list list"

record externals =
  ComputeZ :: "interpolator \<Rightarrow> real \<Rightarrow> real \<Rightarrow> Double_t"
  TH1_GetMinimum :: "TH2D \<Rightarrow> real"
  TH1_GetMaximum :: "TH2D \<Rightarrow> real"
  Painter_GetContourList :: "TH2D \<Rightarrow> real \<Rightarrow> TList option"

text \<open>The \<^verbatim>\<open>Option_t\<close> string of \<^verbatim>\<open>GetHistogram\<close> is lower-cased and searched for
  \<^verbatim>\<open>"empty"\<close> and \<^verbatim>\<open>"old"\<close>; it is represented by the two answers.\<close>

record Option_t =
  optEmpty :: bool
  optOld :: bool

text \<open>\<^verbatim>\<open>TMath::AreEqualRel(af, bf, relPrec)\<close>, from \<^verbatim>\<open>TMath.h\<close>: equal, or apart by at most
  \<open>relPrec\<close> times the mean of the two magnitudes.\<close>

definition AreEqualRel :: "real \<Rightarrow> real \<Rightarrow> real \<Rightarrow> bool" where
  "AreEqualRel af bf relPrec =
     (af = bf \<or> \<bar>af - bf\<bar> \<le> 0.5 * relPrec * (\<bar>af\<bar> + \<bar>bf\<bar>))"

text \<open>The loops of \<^verbatim>\<open>GetXmax\<close>, \<^verbatim>\<open>GetXmin\<close> and their siblings: \<open>v = a[0]\<close>, then
  every \<open>a[i]\<close> with \<open>1 \<le> i < n\<close> is compared with \<open>v\<close>.\<close>

definition array_max :: "real list option \<Rightarrow> int \<Rightarrow> real option" where
  "array_max a n =
     (case a of
        None \<Rightarrow> None
      | Some xs \<Rightarrow>
          if xs = [] \<or> int (length xs) < n then None
          else Some (fold (\<lambda>i v. if xs ! i > v then xs ! i else v) [1..<nat n] (xs ! 0)))"

definition array_min :: "real list option \<Rightarrow> int \<Rightarrow> real option" where
  "array_min a n =
     (case a of
        None \<Rightarrow> None
      | Some xs \<Rightarrow>
          if xs = [] \<or> int (length xs) < n then None
          else Some (fold (\<lambda>i v. if xs ! i < v then xs ! i else v) [1..<nat n] (xs ! 0)))"

definition GetXmax :: "TGraph2D \<Rightarrow> real option" where
  "GetXmax g = array_max (fX g) (fNpoints g)"

definition GetXmin :: "TGraph2D \<Rightarrow> real option" where
  "GetXmin g = array_min (fX g) (fNpoints g)"

definition GetYmax :: "TGraph2D \<Rightarrow> real option" where
  "GetYmax g = array_max (fY g) (fNpoints g)"

definition GetYmin :: "TGraph2D \<Rightarrow> real option" where
  "GetYmin g = array_min (fY g) (fNpoints g)"

definition GetZmax :: "TGraph2D \<Rightarrow> real option" where
  "GetZmax g = array_max (fZ g) (fNpoints g)"

definition GetZmin :: "TGraph2D \<Rightarrow> real option" where
  "GetZmin g = array_min (fZ g) (fNpoints g)"

text \<open>\<^verbatim>\<open>GetXmaxE()\<close> and its siblings are virtual and declared in the header; for a
  TGraph2D, which has no errors, they are the plain extrema.\<close>

definition GetXmaxE :: "TGraph2D \<Rightarrow> real option" where
  "GetXmaxE g = GetXmax g"

definition GetXminE :: "TGraph2D \<Rightarrow> real option" where
  "GetXminE g = GetXmin g"

definition GetYmaxE :: "TGraph2D \<Rightarrow> real option" where
  "GetYmaxE g = GetYmax g"

definition GetYminE :: "TGraph2D \<Rightarrow> real option" where
  "GetYminE g = GetYmin g"

definition GetZmaxE :: "TGraph2D \<Rightarrow> real option" where
  "GetZmaxE g = GetZmax g"

definition GetZminE :: "TGraph2D \<Rightarrow> real option" where
  "GetZminE g = GetZmin g"

text \<open>\<^verbatim>\<open>new TH2D(name, title, nx, xlow, xup, ny, ylow, yup)\<close>: an empty histogram.\<close>

definition new_TH2D :: "string \<Rightarrow> string \<Rightarrow> int \<Rightarrow> real \<Rightarrow> real \<Rightarrow> int \<Rightarrow> real \<Rightarrow> real \<Rightarrow> TH2D" where
  "new_TH2D name title nx xlow xup ny ylow yup =
     \<lparr> hName = name, hTitle = title, hNbinsX = nx, hXmin = xlow, hXmax = xup,
       hNbinsY = ny, hYmin = ylow, hYmax = yup, hFills = [], hEntries = 0,
       hMinimum = -1111, hMaximum = -1111, hFunctions = [], hNoStats = False,
       hSumw2 = False \<rparr>"

text \<open>\<^verbatim>\<open>TH2D::Fill(x, y, w)\<close>.\<close>

definition Fill :: "TH2D \<Rightarrow> real \<Rightarrow> real \<Rightarrow> Double_t \<Rightarrow> TH2D" where
  "Fill h x y w = h\<lparr>hFills := hFills h @ [(x, y, w)], hEntries := hEntries h + 1\<rparr>"

text \<open>\<^verbatim>\<open>hl->FindObject("TGraphDelaunay")\<close> and \<^verbatim>\<open>hl->FindObject("TGraphDelaunay2D")\<close>: the
  first interpolator of that class in the list.\<close>

definition FindObject :: "interpolator list \<Rightarrow> interp_class \<Rightarrow> interpolator option" where
  "FindObject hl c = find (\<lambda>d. iClass d = c) hl"

text \<open>\<^verbatim>\<open>TGraph2D::CreateInterpolator(oldInterp)\<close>.\<close>

definition CreateInterpolator :: "bool \<Rightarrow> TGraph2D \<Rightarrow> TGraph2D option" where
  "CreateInterpolator oldInterp g =
     (case fHistogram g of
        None \<Rightarrow> None
      | Some h \<Rightarrow>
          (let hl = hFunctions h in
           if oldInterp then
             (let dt = \<lparr> iClass = TGraphDelaunay, iX = fX g, iY = fY g, iZ = fZ g,
                         iNpoints = fNpoints g, iMaxIter = Some (fMaxIter g),
                         iZout = fZout g \<rparr>
              in Some (g\<lparr> fDelaunay := Some dt, kOldInterpolation := True,
                          fHistogram := Some (if FindObject hl TGraphDelaunay = None
                                              then h\<lparr>hFunctions := hl @ [dt]\<rparr> else h) \<rparr>))
           else
             (let dt = \<lparr> iClass = TGraphDelaunay2D, iX = fX g, iY = fY g, iZ = fZ g,
                         iNpoints = fNpoints g, iMaxIter = None, iZout = fZout g \<rparr>
              in Some (g\<lparr> fDelaunay := Some dt, kOldInterpolation := False,
                          fHistogram := Some (if FindObject hl TGraphDelaunay2D = None
                                              then h\<lparr>hFunctions := hl @ [dt]\<rparr> else h) \<rparr>))))"

text \<open>
  \<^verbatim>\<open>TGraph2D::GetHistogram(option)\<close>, block by block. First the test of an existing
  histogram: \<open>Inl\<close> when the function returns it as it is, \<open>Inr\<close> when it goes on.
\<close>

definition GetHistogram_existing :: "bool \<Rightarrow> bool \<Rightarrow> TGraph2D \<Rightarrow> TGraph2D + TGraph2D" where
  "GetHistogram_existing emptyOpt oldInterp g =
     (case fHistogram g of
        None \<Rightarrow> Inr g
      | Some h \<Rightarrow>
          if \<not> emptyOpt \<and> hEntries h = 0 then
            (if \<not> fUserHisto g then Inr (g\<lparr>fHistogram := None, fDelaunay := None\<rparr>)
             else Inr g)
          else if hEntries h = 0 then Inr g
          else if (kOldInterpolation g \<and> \<not> oldInterp) \<or> (\<not> kOldInterpolation g \<and> oldInterp)
          then Inr (g\<lparr>fHistogram := None, fDelaunay := None\<rparr>)
          else Inl g)"

text \<open>The widening of a range whose two ends are equal within \<open>epsilon = 1e-9\<close>.\<close>

definition widen_limits :: "real \<Rightarrow> real \<Rightarrow> real \<times> real" where
  "widen_limits hmin hmax =
     (let epsilon = 1 / 10 ^ 9 in
      if AreEqualRel hmax hmin epsilon then
        (if \<bar>hmin\<bar> < epsilon then (- 0.001, 0.001)
         else (hmin - \<bar>hmin\<bar> * (epsilon / 2), hmax + \<bar>hmax\<bar> * (epsilon / 2)))
      else (hmin, hmax))"

text \<open>Booking: the limits \<open>(hxmin, hxmax, hymin, hymax)\<close> and the graph with its
  histogram. Reading the axis of a missing histogram is undefined.\<close>

definition GetHistogram_book :: "bool \<Rightarrow> TGraph2D \<Rightarrow> (real \<times> real \<times> real \<times> real \<times> TGraph2D) option" where
  "GetHistogram_book oldInterp g =
     (if \<not> fUserHisto g then
        (case (GetXmaxE g, GetYmaxE g, GetXminE g, GetYminE g) of
           (Some xmax, Some ymax, Some xmin, Some ymin) \<Rightarrow>
             (let (hxmin, hxmax) = widen_limits (xmin - fMargin g * (xmax - xmin))
                                                (xmax + fMargin g * (xmax - xmin));
                  (hymin, hymax) = widen_limits (ymin - fMargin g * (ymax - ymin))
                                                (ymax + fMargin g * (ymax - ymin));
                  g1 = (case fHistogram g of
                          Some h \<Rightarrow>
                            Some (g\<lparr>fHistogram := Some (h\<lparr>hXmin := hxmin, hXmax := hxmax,
                                                          hYmin := hymin, hYmax := hymax\<rparr>)\<rparr>)
                        | None \<Rightarrow>
                            CreateInterpolator oldInterp
                              (g\<lparr>fHistogram := Some (new_TH2D (fName g) (fTitle g)
                                                       (fNpx g) hxmin hxmax
                                                       (fNpy g) hymin hymax)\<rparr>))
              in case g1 of
                   None \<Rightarrow> None
                 | Some g2 \<Rightarrow>
                     (case fHistogram g2 of
                        None \<Rightarrow> None
                      | Some h \<Rightarrow>
                          Some (hxmin, hxmax, hymin, hymax,
                                g2\<lparr>fHistogram := Some (h\<lparr>hNoStats := True, hSumw2 := False\<rparr>)\<rparr>)))
         | _ \<Rightarrow> None)
      else
        (case fHistogram g of
           None \<Rightarrow> None
         | Some h \<Rightarrow> Some (hXmin h, hXmax h, hYmin h, hYmax h, g)))"

text \<open>Option \<^verbatim>\<open>"empty"\<close>: only the z range of the histogram is set.\<close>

definition GetHistogram_empty :: "TGraph2D \<Rightarrow> TGraph2D option" where
  "GetHistogram_empty g =
     (case (if fMinimum g \<noteq> -1111 then Some (fMinimum g) else GetZminE g,
            if fMaximum g \<noteq> -1111 then Some (fMaximum g) else GetZmaxE g,
            fHistogram g) of
        (Some hzmin0, Some hzmax0, Some h) \<Rightarrow>
          (let (hzmin, hzmax) =
             (if hzmin0 = hzmax0 then
                (let hz = hzmin0 in
                 if hz = 0 then (- 0.01, 0.01)
                 else (hz - 0.01 * \<bar>hz\<bar>, hz + 0.01 * \<bar>hz\<bar>))
              else (hzmin0, hzmax0))
           in Some (g\<lparr>fHistogram := Some (h\<lparr>hMinimum := hzmin, hMaximum := hzmax\<rparr>)\<rparr>))
      | _ \<Rightarrow> None)"

text \<open>The two nested loops: the inner one over \<open>iy\<close> for a fixed \<open>x\<close>, the outer one
  over \<open>ix\<close>. \<open>d\<close> is the interpolator behind \<open>fDelaunay\<close>.\<close>

definition fill_column :: "externals \<Rightarrow> interpolator \<Rightarrow> real \<Rightarrow> real \<Rightarrow> real \<Rightarrow> int \<Rightarrow> TH2D \<Rightarrow> TH2D" where
  "fill_column ext d x hymin dy npy h =
     fold (\<lambda>iy h1. let y = hymin + (real_of_int iy - 0.5) * dy;
                       z = ComputeZ ext d x y
                   in Fill h1 x y z) [1..npy] h"

definition fill_grid :: "externals \<Rightarrow> interpolator \<Rightarrow> real \<Rightarrow> real \<Rightarrow> real \<Rightarrow> real \<Rightarrow> int \<Rightarrow> int
    \<Rightarrow> TH2D \<Rightarrow> TH2D" where
  "fill_grid ext d hxmin dx hymin dy npx npy h =
     fold (\<lambda>ix h1. let x = hxmin + (real_of_int ix - 0.5) * dx
                   in fill_column ext d x hymin dy npy h1) [1..npx] h"

text \<open>The end of the function: the z range of the filled histogram \<open>h1\<close>, from the
  extrema \<open>hzmin\<close>, \<open>hzmax\<close> of the samples and from \<open>fMinimum\<close>, \<open>fMaximum\<close>.\<close>

definition set_z_range :: "externals \<Rightarrow> TGraph2D \<Rightarrow> real \<Rightarrow> real \<Rightarrow> TH2D \<Rightarrow> TH2D" where
  "set_z_range ext g hzmin hzmax h1 =
     (let h2 = (if hzmin < TH1_GetMinimum ext h1 then h1\<lparr>hMinimum := hzmin\<rparr> else h1);
          h3 = (if hzmax > TH1_GetMaximum ext h2 then h2\<lparr>hMaximum := hzmax\<rparr> else h2);
          h4 = (if fMinimum g \<noteq> -1111 then h3\<lparr>hMinimum := fMinimum g\<rparr> else h3);
          h5 = (if fMaximum g \<noteq> -1111 then h4\<lparr>hMaximum := fMaximum g\<rparr> else h4)
      in h5)"

text \<open>Filling. The cast of \<open>fDelaunay\<close> to the class that \<open>oldInterp\<close> selects is only
  defined for an object of that class.\<close>

definition GetHistogram_fill :: "externals \<Rightarrow> bool \<Rightarrow> real \<Rightarrow> real \<Rightarrow> real \<Rightarrow> real \<Rightarrow> TGraph2D
    \<Rightarrow> TGraph2D option" where
  "GetHistogram_fill ext oldInterp hxmin hxmax hymin hymax g =
     (let dx = (hxmax - hxmin) / real_of_int (fNpx g);
          dy = (hymax - hymin) / real_of_int (fNpy g);
          filled =
            (case fHistogram g of
               None \<Rightarrow> None
             | Some h \<Rightarrow>
                 if 1 \<le> fNpx g \<and> 1 \<le> fNpy g then
                   (case fDelaunay g of
                      None \<Rightarrow> None
                    | Some d \<Rightarrow>
                        if iClass d = (if oldInterp then TGraphDelaunay else TGraphDelaunay2D)
                        then Some (fill_grid ext d hxmin dx hymin dy (fNpx g) (fNpy g) h)
                        else None)
                 else Some h)
      in case (filled, GetZminE g, GetZmaxE g) of
           (Some h1, Some hzmin, Some hzmax) \<Rightarrow>
             Some (g\<lparr>fHistogram := Some (set_z_range ext g hzmin hzmax h1)\<rparr>)
         | _ \<Rightarrow> None)"

text \<open>The whole function. It returns the pointer \<open>fHistogram\<close>, that is the histogram of
  the graph returned here.\<close>

definition GetHistogram :: "externals \<Rightarrow> Option_t \<Rightarrow> TGraph2D \<Rightarrow> TGraph2D option" where
  "GetHistogram ext option g =
     (if fNpoints g \<le> 0 then
        (if fHistogram g = None then
           Some (g\<lparr>fHistogram :=
                     Some ((new_TH2D (fName g) (fTitle g) (fNpx g) 0 1 (fNpy g) 0 1)
                             \<lparr>hNoStats := True\<rparr>)\<rparr>)
         else Some g)
      else
        (let emptyOpt = optEmpty option; oldInterp = optOld option in
         case GetHistogram_existing emptyOpt oldInterp g of
           Inl g1 \<Rightarrow> Some g1
         | Inr g1 \<Rightarrow>
             (case GetHistogram_book oldInterp g1 of
                None \<Rightarrow> None
              | Some (hxmin, hxmax, hymin, hymax, g2) \<Rightarrow>
                  if emptyOpt then GetHistogram_empty g2
                  else GetHistogram_fill ext oldInterp hxmin hxmax hymin hymax g2)))"

text \<open>The histogram behind the pointer that \<^verbatim>\<open>GetHistogram\<close> returns.\<close>

definition GetHistogram_returned :: "externals \<Rightarrow> Option_t \<Rightarrow> TGraph2D \<Rightarrow> TH2D option" where
  "GetHistogram_returned ext option g = Option.bind (GetHistogram ext option g) fHistogram"

section \<open>Queries\<close>

text \<open>\<^verbatim>\<open>TGraph2D::Interpolate(x, y)\<close>: the returned value and the graph afterwards.\<close>

definition Interpolate :: "externals \<Rightarrow> real \<Rightarrow> real \<Rightarrow> TGraph2D \<Rightarrow> (Double_t \<times> TGraph2D) option" where
  "Interpolate ext x y g =
     (if fNpoints g \<le> 0 then
        Some (Num 0, g\<lparr>messages := messages g @ [Error ''Interpolate'' ''Empty TGraph2D'']\<rparr>)
      else
        (case (if fHistogram g = None
               then GetHistogram ext \<lparr>optEmpty = True, optOld = False\<rparr> g else Some g) of
           None \<Rightarrow> None
         | Some g1 \<Rightarrow>
             (let g2 =
                (if fDelaunay g1 = None then
                   (case fHistogram g1 of
                      None \<Rightarrow> None
                    | Some h \<Rightarrow>
                        (let hl = hFunctions h in
                         if \<not> kOldInterpolation g1 then
                           Some (g1\<lparr>fDelaunay :=
                                      (case FindObject hl TGraphDelaunay2D of
                                         Some d \<Rightarrow> Some d
                                       | None \<Rightarrow> FindObject hl TGraphDelaunay)\<rparr>)
                         else
                           Some (g1\<lparr>fDelaunay :=
                                      (case FindObject hl TGraphDelaunay of
                                         Some d \<Rightarrow> Some d
                                       | None \<Rightarrow> FindObject hl TGraphDelaunay2D)\<rparr>)))
                 else Some g1)
              in case g2 of
                   None \<Rightarrow> None
                 | Some g3 \<Rightarrow>
                     (case fDelaunay g3 of
                        None \<Rightarrow> Some (QuietNaN, g3)
                      | Some d \<Rightarrow> Some (ComputeZ ext d x y, g3)))))"

text \<open>\<^verbatim>\<open>TGraph2D::GetContourList(contour)\<close>: the returned list (\<open>None\<close> for the null
  pointer) and the graph afterwards. The painter of a histogram is represented by that
  histogram.\<close>

definition GetContourList :: "externals \<Rightarrow> real \<Rightarrow> TGraph2D \<Rightarrow> (TList option \<times> TGraph2D) option" where
  "GetContourList ext contour g =
     (if fNpoints g \<le> 0 then
        Some (None, g\<lparr>messages := messages g @ [Error ''GetContourList'' ''Empty TGraph2D'']\<rparr>)
      else
        (case (if fHistogram g = None
               then GetHistogram ext \<lparr>optEmpty = True, optOld = False\<rparr> g else Some g) of
           None \<Rightarrow> None
         | Some g1 \<Rightarrow>
             (case fHistogram g1 of
                None \<Rightarrow> None
              | Some h \<Rightarrow>
                  (let g2 = (if fPainter g1 = None then g1\<lparr>fPainter := Some h\<rparr> else g1)
                   in case fPainter g2 of
                        None \<Rightarrow> None
                      | Some painter \<Rightarrow>
                          Some (Painter_GetContourList ext painter contour, g2)))))"

text \<open>\<^verbatim>\<open>TGraph2D::SetHistogram(h, option)\<close>, with the \<^verbatim>\<open>"old"\<close> answer of the option.\<close>

definition SetHistogram :: "TH2D \<Rightarrow> bool \<Rightarrow> TGraph2D \<Rightarrow> TGraph2D option" where
  "SetHistogram h oldInterp g =
     CreateInterpolator oldInterp
       (g\<lparr>fUserHisto := True, fHistogram := Some h, fNpx := hNbinsX h, fNpy := hNbinsY h\<rparr>)"

section \<open>Well-formed sample arrays\<close>

text \<open>The three arrays are allocated and hold at least \<open>fNpoints\<close> cells each.\<close>

definition arrays_ok :: "TGraph2D \<Rightarrow> bool" where
  "arrays_ok g =
     (case (fX g, fY g, fZ g) of
        (Some xs, Some ys, Some zs) \<Rightarrow>
          fNpoints g \<le> int (length xs) \<and> fNpoints g \<le> int (length ys) \<and>
          fNpoints g \<le> int (length zs)
      | _ \<Rightarrow> False)"

text \<open>Sample \<open>i\<close> of a graph with well-formed arrays.\<close>

definition point :: "TGraph2D \<Rightarrow> nat \<Rightarrow> real \<times> real \<times> real" where
  "point g i = (the (fX g) ! i, the (fY g) ! i, the (fZ g) ! i)"

text \<open>The samples in index order.\<close>

definition points :: "TGraph2D \<Rightarrow> (real \<times> real \<times> real) list" where
  "points g = map (point g) [0..<nat (fNpoints g)]"

section \<open>Notions used in the statements\<close>

text \<open>An array after the cells \<open>i, \<dots>, n - 2\<close> have each received the value of the next
  cell, the other cells being as before.\<close>

definition shifted :: "nat \<Rightarrow> int \<Rightarrow> real list \<Rightarrow> real list \<Rightarrow> bool" where
  "shifted i n xs xs' =
     (length xs' = length xs \<and>
      (\<forall>k \<in> {..<length xs}. xs' ! k = (if i \<le> k \<and> int k < n - 1 then xs ! Suc k else xs ! k)))"

text \<open>Two samples with the same \<open>(x, y)\<close>, compared as \<^verbatim>\<open>RemoveDuplicates\<close> compares them.\<close>

definition same_xy :: "real \<times> real \<times> real \<Rightarrow> real \<times> real \<times> real \<Rightarrow> bool" where
  "same_xy p q = (fst p = fst q \<and> fst (snd p) = fst (snd q))"

text \<open>The samples that have no sample with the same \<open>(x, y)\<close> at a lower index, in index
  order: of every group of samples sharing \<open>(x, y)\<close>, the first one.\<close>

definition first_occurrences :: "(real \<times> real \<times> real) list \<Rightarrow> (real \<times> real \<times> real) list" where
  "first_occurrences ps =
     map (\<lambda>i. ps ! i) (filter (\<lambda>i. list_all (\<lambda>j. \<not> same_xy (ps ! j) (ps ! i)) [0..<i])
                              [0..<length ps])"

text \<open>What the two loops do to the list of samples: the head stays and its later
  duplicates go, then the same for the rest.\<close>

fun sweep :: "(real \<times> real \<times> real) list \<Rightarrow> (real \<times> real \<times> real) list" where
  "sweep [] = []"
| "sweep (p # ps) = p # sweep (filter (\<lambda>q. \<not> same_xy p q) ps)"

text \<open>
  The grid of the sampling contract: for every cell \<open>(ix, iy)\<close> with \<open>1 \<le> ix \<le> npx\<close> and
  \<open>1 \<le> iy \<le> npy\<close>, in the order of the two loops, the centre of the cell in the box
  \<open>[hxmin, hxmax] \<times> [hymin, hymax]\<close> and the interpolator's value at that centre.
\<close>

definition cell_centre_values :: "externals \<Rightarrow> interpolator \<Rightarrow> real \<Rightarrow> real \<Rightarrow> real \<Rightarrow> real \<Rightarrow> int \<Rightarrow> int
    \<Rightarrow> (real \<times> real \<times> Double_t) list" where
  "cell_centre_values ext d hxmin hxmax hymin hymax npx npy =
     concat (map (\<lambda>ix. map (\<lambda>iy.
        (let x = hxmin + (real_of_int ix - 0.5) * ((hxmax - hxmin) / real_of_int npx);
             y = hymin + (real_of_int iy - 0.5) * ((hymax - hymin) / real_of_int npy)
         in (x, y, ComputeZ ext d x y))) [1..npy]) [1..npx])"

section \<open>Sample values\<close>

text \<open>The graph with the single sample \<open>(0, 0, 0)\<close> and no histogram yet: a
  default-constructed graph after \<^verbatim>\<open>SetPoint(0, 0, 0, 0)\<close>.\<close>

definition sample_single :: TGraph2D where
  "sample_single =
     TGraph2D_default
       \<lparr> fNpoints := 1, fSize := 1, fX := Some [0], fY := Some [0], fZ := Some [0] \<rparr>"

text \<open>A graph with the single sample \<open>(0, 0, 0)\<close> that holds a histogram and its
  interpolator: the state after \<^verbatim>\<open>SetPoint(0, 0, 0, 0)\<close> and one \<^verbatim>\<open>Interpolate\<close> on a
  default-constructed graph.\<close>

definition sample_interpolator :: interpolator where
  "sample_interpolator =
     \<lparr> iClass = TGraphDelaunay2D, iX = Some [0], iY = Some [0], iZ = Some [0], iNpoints = 1,
       iMaxIter = None, iZout = 0 \<rparr>"

definition sample_cached :: TGraph2D where
  "sample_cached =
     TGraph2D_default
       \<lparr> fNpoints := 1, fSize := 1, fX := Some [0], fY := Some [0], fZ := Some [0],
         fHistogram := Some ((new_TH2D ''Graph2D'' ''Graph2D'' 40 (- 0.001) 0.001 40 (- 0.001) 0.001)
                               \<lparr>hFunctions := [sample_interpolator], hNoStats := True,
                                hMinimum := - 0.01, hMaximum := 0.01\<rparr>),
         fDelaunay := Some sample_interpolator \<rparr>"

text \<open>The same graph after one \<^verbatim>\<open>Fill\<close> into its histogram.\<close>

definition sample_filled :: TGraph2D where
  "sample_filled =
     sample_cached\<lparr>fHistogram := map_option (\<lambda>h. Fill h 0 0 (Num 0)) (fHistogram sample_cached)\<rparr>"

text \<open>A histogram of \<open>10 \<times> 10\<close> bins on the unit square that a caller hands to
  \<^verbatim>\<open>SetHistogram\<close>.\<close>

definition sample_user_histogram :: TH2D where
  "sample_user_histogram = new_TH2D ''h'' ''h'' 10 0 1 10 0 1"

text \<open>A graph with two samples on the line \<open>x = 5\<close> and a grid of \<open>4 \<times> 4\<close>.\<close>

definition sample_column :: TGraph2D where
  "sample_column =
     TGraph2D_default
       \<lparr> fNpoints := 2, fSize := 2, fNpx := 4, fNpy := 4, fX := Some [5, 5], fY := Some [1, 2],
         fZ := Some [0, 0] \<rparr>"

text \<open>A graph with four samples, the third repeating the \<open>(x, y)\<close> of the first, in arrays
  of five cells.\<close>

definition sample_duplicates :: TGraph2D where
  "sample_duplicates =
     TGraph2D_default
       \<lparr> fNpoints := 4, fSize := 5, fX := Some [1, 2, 1, 2, 0], fY := Some [1, 2, 1, 3, 0],
         fZ := Some [10, 20, 30, 40, 0] \<rparr>"

text \<open>Stand-ins for the external functions, for evaluating the model on examples: an
  interpolator that answers its outside-hull value everywhere, a histogram that reports
  its stored extrema, a painter without contours.\<close>

definition sample_externals :: externals where
  "sample_externals =
     \<lparr> ComputeZ = (\<lambda>d x y. Num (iZout d)), TH1_GetMinimum = hMinimum,
       TH1_GetMaximum = hMaximum, Painter_GetContourList = (\<lambda>h c. Some []) \<rparr>"

section \<open>Auxiliary facts about the arrays\<close>

lemma array_set_Some:
  "0 \<le> i \<Longrightarrow> nat i < length xs \<Longrightarrow> array_set (Some xs) i v = Some (xs[nat i := v])"
  by (simp add: array_set_def)

lemma array_get_Some:
  "0 \<le> i \<Longrightarrow> nat i < length xs \<Longrightarrow> array_get (Some xs) i = Some (xs ! nat i)"
  by (simp add: array_get_def)

lemma arrays_okE:
  assumes "arrays_ok g"
  obtains xs ys zs where "fX g = Some xs" "fY g = Some ys" "fZ g = Some zs"
    "fNpoints g \<le> int (length xs)" "fNpoints g \<le> int (length ys)"
    "fNpoints g \<le> int (length zs)"
  using assms by (auto simp: arrays_ok_def split: option.splits)

lemma sample_single_reached: "SetPoint mem 0 0 0 0 TGraph2D_default = Some sample_single"
  by (simp add: SetPoint_def TGraph2D_default_def reallocate_def new_array_def array_set_def
      sample_single_def)

lemma sample_cached_reached:
  "Interpolate ext x y sample_single = Some (ComputeZ ext sample_interpolator x y, sample_cached)"
  by (simp add: Interpolate_def GetHistogram_def GetHistogram_existing_def GetHistogram_book_def
     GetXmaxE_def GetXminE_def GetYmaxE_def GetYminE_def GetZmaxE_def GetZminE_def
     GetXmax_def GetXmin_def GetYmax_def GetYmin_def GetZmax_def GetZmin_def
     array_max_def array_min_def widen_limits_def AreEqualRel_def Let_def
     CreateInterpolator_def new_TH2D_def FindObject_def GetHistogram_empty_def
     sample_cached_def sample_interpolator_def sample_single_def TGraph2D_default_def)

lemma zero_points_ok:
  "arrays_ok g \<Longrightarrow> 0 \<le> i \<Longrightarrow>
     \<exists>g'. zero_points i g = Some g' \<and> fZout g' = fZout g \<and> fMaxIter g' = fMaxIter g"
proof (induction "nat (fNpoints g - i)" arbitrary: i g)
  case 0
  then show ?case by (simp add: zero_points.simps)
next
  case (Suc k)
  from Suc.prems(1) obtain xs ys zs where a: "fX g = Some xs" "fY g = Some ys" "fZ g = Some zs"
    and l: "fNpoints g \<le> int (length xs)" "fNpoints g \<le> int (length ys)"
      "fNpoints g \<le> int (length zs)"
    by (rule arrays_okE)
  from Suc.hyps(2) have lt: "i < fNpoints g" by simp
  let ?g = "g\<lparr>fX := Some (xs[nat i := 0]), fY := Some (ys[nat i := 0]),
               fZ := Some (zs[nat i := 0])\<rparr>"
  from lt Suc.prems(2) l have s: "array_set (fX g) i 0 = Some (xs[nat i := 0])"
    "array_set (fY g) i 0 = Some (ys[nat i := 0])" "array_set (fZ g) i 0 = Some (zs[nat i := 0])"
    by (simp_all add: a array_set_Some)
  have ok: "arrays_ok ?g" using l by (simp add: arrays_ok_def)
  have k: "k = nat (fNpoints ?g - (i + 1))" using Suc.hyps(2) by simp
  from Suc.hyps(1) [OF k ok] Suc.prems(2)
  obtain g' where "zero_points (i + 1) ?g = Some g'" "fZout g' = fZout g" "fMaxIter g' = fMaxIter g"
    by auto
  with lt s show ?case by (subst zero_points.simps) simp
qed

lemma copy_points_ok:
  assumes "arrays_ok g" "0 \<le> i" "fNpoints g \<le> int (length x)" "fNpoints g \<le> int (length y)"
    "fNpoints g \<le> int (length z)"
  shows "\<exists>g'. copy_points i (Some x) (Some y) (Some z) g = Some g' \<and> fZout g' = fZout g \<and>
           fMaxIter g' = fMaxIter g"
  using assms
proof (induction "nat (fNpoints g - i)" arbitrary: i g)
  case 0
  then show ?case by (simp add: copy_points.simps)
next
  case (Suc k)
  from Suc.prems(1) obtain xs ys zs where a: "fX g = Some xs" "fY g = Some ys" "fZ g = Some zs"
    and l: "fNpoints g \<le> int (length xs)" "fNpoints g \<le> int (length ys)"
      "fNpoints g \<le> int (length zs)"
    by (rule arrays_okE)
  from Suc.hyps(2) have lt: "i < fNpoints g" by simp
  let ?g = "g\<lparr>fX := Some (xs[nat i := x ! nat i]), fY := Some (ys[nat i := y ! nat i]),
               fZ := Some (zs[nat i := z ! nat i])\<rparr>"
  from lt Suc.prems have r: "array_get (Some x) i = Some (x ! nat i)"
    "array_get (Some y) i = Some (y ! nat i)" "array_get (Some z) i = Some (z ! nat i)"
    by (simp_all add: array_get_Some)
  from lt Suc.prems(2) l have s: "array_set (fX g) i (x ! nat i) = Some (xs[nat i := x ! nat i])"
    "array_set (fY g) i (y ! nat i) = Some (ys[nat i := y ! nat i])"
    "array_set (fZ g) i (z ! nat i) = Some (zs[nat i := z ! nat i])"
    by (simp_all add: a array_set_Some)
  have ok: "arrays_ok ?g" using l by (simp add: arrays_ok_def)
  have k: "k = nat (fNpoints ?g - (i + 1))" using Suc.hyps(2) by simp
  from Suc.hyps(1) [OF k ok] Suc.prems
  obtain g' where "copy_points (i + 1) (Some x) (Some y) (Some z) ?g = Some g'"
    "fZout g' = fZout g" "fMaxIter g' = fMaxIter g"
    by auto
  with lt r s show ?case by (subst copy_points.simps) simp
qed

lemma Build_ok: "1 \<le> n \<Longrightarrow> fNpoints g = n \<Longrightarrow> arrays_ok (Build mem addDir gDirectory n g)"
  by (simp add: Build_def arrays_ok_def new_array_def)

section \<open>Defaults of a new graph\<close>

text \<open>
  C5: the default constructor leaves \<open>fZout = 0\<close> and \<open>fMaxIter = 100000\<close>; so does
  \<^verbatim>\<open>Build(n)\<close> for every \<open>n \<ge> 1\<close>, whatever the object held before, and with it the
  constructor \<^verbatim>\<open>TGraph2D(n)\<close> and the constructor from three arrays of at least \<open>n\<close>
  values, both of which return. \<^verbatim>\<open>SetPoint\<close>, with which the constructors from a
  histogram and from a file go on after \<^verbatim>\<open>Build\<close>, changes neither value.
\<close>

theorem constructors_default_fZout_fMaxIter:
  "fZout TGraph2D_default = 0 \<and> fMaxIter TGraph2D_default = 100000 \<and>
   (1 \<le> n \<longrightarrow>
      fZout (Build mem addDir gDirectory n g0) = 0 \<and>
      fMaxIter (Build mem addDir gDirectory n g0) = 100000 \<and>
      (\<exists>g. TGraph2D_n mem addDir gDirectory g0 n = Some g \<and> fZout g = 0 \<and> fMaxIter g = 100000) \<and>
      (n \<le> int (length x) \<and> n \<le> int (length y) \<and> n \<le> int (length z) \<longrightarrow>
         (\<exists>g. TGraph2D_arrays mem addDir gDirectory g0 n (Some x) (Some y) (Some z) = Some g \<and>
              fZout g = 0 \<and> fMaxIter g = 100000))) \<and>
   (SetPoint mem k px py pz g1 = Some g2 \<longrightarrow> fZout g2 = fZout g1 \<and> fMaxIter g2 = fMaxIter g1)"
proof -
  let ?g1 = "g0\<lparr>fName := ''Graph2D'', fTitle := ''Graph2D'', fNpoints := n\<rparr>"
  let ?b = "Build mem addDir gDirectory n ?g1"
  have d: "fZout TGraph2D_default = 0 \<and> fMaxIter TGraph2D_default = 100000"
    by (simp add: TGraph2D_default_def)
  have b: "fZout (Build mem addDir gDirectory n g) = 0 \<and>
           fMaxIter (Build mem addDir gDirectory n g) = 100000 \<and>
           fNpoints (Build mem addDir gDirectory n g) = fNpoints g" if "1 \<le> n" for g
    using that by (simp add: Build_def)
  have c1: "\<exists>g. TGraph2D_n mem addDir gDirectory g0 n = Some g \<and> fZout g = 0 \<and> fMaxIter g = 100000"
    if n: "1 \<le> n"
  proof -
    have "arrays_ok ?b" using n by (intro Build_ok) simp_all
    from zero_points_ok [OF this, of 0] b [OF n, of ?g1] show ?thesis
      by (auto simp: TGraph2D_n_def)
  qed
  have c2: "\<exists>g. TGraph2D_arrays mem addDir gDirectory g0 n (Some x) (Some y) (Some z) = Some g \<and>
              fZout g = 0 \<and> fMaxIter g = 100000"
    if n: "1 \<le> n" and l: "n \<le> int (length x)" "n \<le> int (length y)" "n \<le> int (length z)"
  proof -
    have ok: "arrays_ok ?b" using n by (intro Build_ok) simp_all
    have np: "fNpoints ?b = n" using b [OF n, of ?g1] by simp
    from copy_points_ok [OF ok, of 0 x y z] l np b [OF n, of ?g1] show ?thesis
      by (auto simp: TGraph2D_arrays_def)
  qed
  have sp: "fZout g2 = fZout g1 \<and> fMaxIter g2 = fMaxIter g1"
    if "SetPoint mem k px py pz g1 = Some g2"
    using that by (auto simp: SetPoint_def Let_def split: if_splits option.splits)
  from d b c1 c2 sp show ?thesis by blast
qed

theorem constructors_default_fZout_fMaxIter_witness:
  "(1::int) \<le> 2 \<and> 2 \<le> int (length [1, 2::real]) \<and>
   (\<exists>g. TGraph2D_n (\<lambda>k i. 7) False None TGraph2D_default 2 = Some g \<and>
        fZout g = 0 \<and> fMaxIter g = 100000) \<and>
   (\<exists>g. TGraph2D_arrays (\<lambda>k i. 7) False None TGraph2D_default 2
           (Some [1, 2]) (Some [3, 4]) (Some [5, 6]) = Some g \<and>
        fZout g = 0 \<and> fMaxIter g = 100000) \<and>
   SetPoint (\<lambda>k i. 7) 0 0 0 0 TGraph2D_default = Some sample_single \<and>
   fZout sample_single = 0 \<and> fMaxIter sample_single = 100000"
  using constructors_default_fZout_fMaxIter
    [of 2 "\<lambda>k i. 7" False None TGraph2D_default "[1, 2]" "[3, 4]" "[5, 6]"
        0 0 0 0 TGraph2D_default sample_single]
    sample_single_reached [of "\<lambda>k i. 7"]
  by (simp add: TGraph2D_default_def)

section \<open>Grid resolution and margin\<close>

text \<open>
  C8: \<^verbatim>\<open>SetNpx(n)\<close> stores \<open>n\<close> when \<open>4 \<le> n \<le> 500\<close> and prints nothing; below 4 it
  stores 4 and above 500 it stores 500, each time after one warning and nothing else. The
  function has no failing outcome. \<^verbatim>\<open>SetNpy\<close> does the same for \<open>fNpy\<close>.
\<close>

theorem SetNpx_SetNpy_clamp:
  "(4 \<le> n \<and> n \<le> 500 \<longrightarrow>
      fNpx (SetNpx n g) = n \<and> messages (SetNpx n g) = messages g \<and>
      fNpy (SetNpy n g) = n \<and> messages (SetNpy n g) = messages g) \<and>
   (n < 4 \<longrightarrow>
      fNpx (SetNpx n g) = 4 \<and> (\<exists>t. messages (SetNpx n g) = messages g @ [Warning ''SetNpx'' t]) \<and>
      fNpy (SetNpy n g) = 4 \<and> (\<exists>t. messages (SetNpy n g) = messages g @ [Warning ''SetNpy'' t])) \<and>
   (500 < n \<longrightarrow>
      fNpx (SetNpx n g) = 500 \<and> (\<exists>t. messages (SetNpx n g) = messages g @ [Warning ''SetNpx'' t]) \<and>
      fNpy (SetNpy n g) = 500 \<and> (\<exists>t. messages (SetNpy n g) = messages g @ [Warning ''SetNpy'' t]))"
  by (simp add: SetNpx_def SetNpy_def Let_def)

theorem SetNpx_SetNpy_clamp_witness:
  "(4::int) \<le> 40 \<and> (40::int) \<le> 500 \<and> (2::int) < 4 \<and> (500::int) < 501 \<and>
   fNpx (SetNpx 40 TGraph2D_default) = 40 \<and> fNpy (SetNpy 40 TGraph2D_default) = 40 \<and>
   messages (SetNpx 40 TGraph2D_default) = messages TGraph2D_default \<and>
   fNpx (SetNpx 2 TGraph2D_default) = 4 \<and> fNpy (SetNpy 2 TGraph2D_default) = 4 \<and>
   fNpx (SetNpx 501 TGraph2D_default) = 500 \<and> fNpy (SetNpy 501 TGraph2D_default) = 500 \<and>
   (\<exists>t. messages (SetNpx 2 TGraph2D_default) = messages TGraph2D_default @ [Warning ''SetNpx'' t]) \<and>
   (\<exists>t. messages (SetNpy 501 TGraph2D_default) = messages TGraph2D_default @ [Warning ''SetNpy'' t])"
  using SetNpx_SetNpy_clamp [of 40 TGraph2D_default] SetNpx_SetNpy_clamp [of 2 TGraph2D_default]
    SetNpx_SetNpy_clamp [of 501 TGraph2D_default]
  by simp

text \<open>
  C9: \<^verbatim>\<open>SetMargin(m)\<close> stores \<open>m\<close> when \<open>0 \<le> m \<le> 1\<close>; for \<open>m < 0\<close> or \<open>m > 1\<close> it
  warns and stores 0.1. In both cases no histogram is left, and the interpolator of the
  histogram that was there is dropped with it.
\<close>

theorem SetMargin_fallback:
  "(0 \<le> m \<and> m \<le> 1 \<longrightarrow>
      fMargin (SetMargin m g) = m \<and> messages (SetMargin m g) = messages g) \<and>
   (m < 0 \<or> 1 < m \<longrightarrow>
      fMargin (SetMargin m g) = 0.1 \<and>
      (\<exists>t. messages (SetMargin m g) = messages g @ [Warning ''SetMargin'' t])) \<and>
   fHistogram (SetMargin m g) = None \<and>
   (fHistogram g \<noteq> None \<or> fDelaunay g = None \<longrightarrow> fDelaunay (SetMargin m g) = None)"
  by (auto simp: SetMargin_def Let_def)

theorem SetMargin_fallback_witness:
  "(0::real) \<le> 0.5 \<and> (0.5::real) \<le> 1 \<and> (1::real) < 2 \<and> fHistogram sample_cached \<noteq> None \<and>
   fMargin (SetMargin 0.5 sample_cached) = 0.5 \<and>
   fMargin (SetMargin 2 sample_cached) = 0.1 \<and>
   fMargin (SetMargin (- 1) sample_cached) = 0.1 \<and>
   fHistogram (SetMargin 2 sample_cached) = None \<and>
   fDelaunay (SetMargin 2 sample_cached) = None \<and>
   fDelaunay (SetMargin 0.5 sample_cached) = None"
  using SetMargin_fallback [of "0.5" sample_cached] SetMargin_fallback [of 2 sample_cached]
    SetMargin_fallback [of "- 1" sample_cached]
  by (simp add: sample_cached_def)

section \<open>Reading a sample\<close>

text \<open>
  C10: \<^verbatim>\<open>GetPoint(i, x, y, z)\<close> returns \<open>-1\<close> and hands the three arguments back as they
  came when \<open>i < 0\<close>, \<open>i \<ge> fNpoints\<close> or an array is null; for a valid index of a graph
  with well-formed arrays it returns \<open>i\<close> and the stored coordinates of sample \<open>i\<close>. The
  function takes the graph and returns no graph: it cannot change it.
\<close>

theorem GetPoint_result:
  "(i < 0 \<or> fNpoints g \<le> i \<or> fX g = None \<or> fY g = None \<or> fZ g = None \<longrightarrow>
      GetPoint g i x y z = Some (- 1, x, y, z)) \<and>
   (0 \<le> i \<and> i < fNpoints g \<and> arrays_ok g \<longrightarrow>
      GetPoint g i x y z = Some (i, point g (nat i)))"
proof -
  have "GetPoint g i x y z = Some (i, point g (nat i))"
    if "0 \<le> i" "i < fNpoints g" "arrays_ok g"
  proof -
    from that(3) obtain xs ys zs where a: "fX g = Some xs" "fY g = Some ys" "fZ g = Some zs"
      and l: "fNpoints g \<le> int (length xs)" "fNpoints g \<le> int (length ys)"
        "fNpoints g \<le> int (length zs)"
      by (rule arrays_okE)
    with that show ?thesis
      by (simp add: GetPoint_def point_def array_get_Some)
  qed
  moreover have "GetPoint g i x y z = Some (- 1, x, y, z)"
    if "i < 0 \<or> fNpoints g \<le> i \<or> fX g = None \<or> fY g = None \<or> fZ g = None"
    using that by (auto simp: GetPoint_def)
  ultimately show ?thesis by blast
qed

theorem GetPoint_result_witness:
  "(0::int) \<le> 0 \<and> 0 < fNpoints sample_cached \<and> arrays_ok sample_cached \<and>
   fNpoints sample_cached \<le> 1 \<and> fX TGraph2D_default = None \<and>
   GetPoint sample_cached 0 7 8 9 = Some (0, 0, 0, 0) \<and>
   GetPoint sample_cached 1 7 8 9 = Some (- 1, 7, 8, 9) \<and>
   GetPoint sample_cached (- 1) 7 8 9 = Some (- 1, 7, 8, 9) \<and>
   GetPoint TGraph2D_default 0 7 8 9 = Some (- 1, 7, 8, 9)"
  using GetPoint_result [of 0 sample_cached 7 8 9] GetPoint_result [of 1 sample_cached 7 8 9]
    GetPoint_result [of "- 1" sample_cached 7 8 9] GetPoint_result [of 0 TGraph2D_default 7 8 9]
  by (simp add: sample_cached_def TGraph2D_default_def arrays_ok_def point_def)

section \<open>Removing a sample\<close>

lemma shifted_refl: "n - 1 \<le> int i \<Longrightarrow> shifted i n xs xs"
  by (auto simp: shifted_def)

lemma shifted_step:
  "shifted (Suc i) n (xs[i := xs ! Suc i]) xs' \<Longrightarrow> int i < n - 1 \<Longrightarrow> shifted i n xs xs'"
proof -
  assume sh: "shifted (Suc i) n (xs[i := xs ! Suc i]) xs'" and lt: "int i < n - 1"
  have "xs' ! k = (if i \<le> k \<and> int k < n - 1 then xs ! Suc k else xs ! k)"
    if k: "k < length xs" for k
  proof (cases "k = i")
    case True
    with sh k lt show ?thesis by (simp add: shifted_def)
  next
    case False
    with sh k lt show ?thesis by (auto simp: shifted_def)
  qed
  with sh show ?thesis by (simp add: shifted_def)
qed

lemma RemovePoint_loop_ok:
  "arrays_ok g \<Longrightarrow> 0 \<le> i \<Longrightarrow>
     \<exists>xs'. \<exists>ys'. \<exists>zs'.
       RemovePoint_loop i g = Some (g\<lparr>fX := Some xs', fY := Some ys', fZ := Some zs'\<rparr>) \<and>
       shifted (nat i) (fNpoints g) (the (fX g)) xs' \<and>
       shifted (nat i) (fNpoints g) (the (fY g)) ys' \<and>
       shifted (nat i) (fNpoints g) (the (fZ g)) zs'"
proof (induction "nat (fNpoints g - 1 - i)" arbitrary: i g)
  case 0
  from "0.prems"(1) obtain xs ys zs where a: "fX g = Some xs" "fY g = Some ys" "fZ g = Some zs"
    by (rule arrays_okE)
  from 0 have ge: "fNpoints g - 1 \<le> int (nat i)" by simp
  have "RemovePoint_loop i g = Some (g\<lparr>fX := Some xs, fY := Some ys, fZ := Some zs\<rparr>)"
    using 0 a by (simp add: RemovePoint_loop.simps)
  with a shifted_refl [OF ge] show ?case by auto
next
  case (Suc m)
  from Suc.prems(1) obtain xs ys zs where a: "fX g = Some xs" "fY g = Some ys" "fZ g = Some zs"
    and l: "fNpoints g \<le> int (length xs)" "fNpoints g \<le> int (length ys)"
      "fNpoints g \<le> int (length zs)"
    by (rule arrays_okE)
  from Suc.hyps(2) have lt: "i < fNpoints g - 1" by simp
  have ni: "nat (i + 1) = Suc (nat i)" using Suc.prems(2) by simp
  let ?xs = "xs[nat i := xs ! Suc (nat i)]"
  let ?ys = "ys[nat i := ys ! Suc (nat i)]"
  let ?zs = "zs[nat i := zs ! Suc (nat i)]"
  let ?g = "g\<lparr>fX := Some ?xs, fY := Some ?ys, fZ := Some ?zs\<rparr>"
  from lt Suc.prems(2) l have r: "array_get (fX g) (i + 1) = Some (xs ! Suc (nat i))"
    "array_get (fY g) (i + 1) = Some (ys ! Suc (nat i))"
    "array_get (fZ g) (i + 1) = Some (zs ! Suc (nat i))"
    by (simp_all add: a array_get_def ni)
  from lt Suc.prems(2) l have s: "array_set (fX g) i (xs ! Suc (nat i)) = Some ?xs"
    "array_set (fY g) i (ys ! Suc (nat i)) = Some ?ys"
    "array_set (fZ g) i (zs ! Suc (nat i)) = Some ?zs"
    by (simp_all add: a array_set_Some)
  have ok: "arrays_ok ?g" using l by (simp add: arrays_ok_def)
  have m: "m = nat (fNpoints ?g - 1 - (i + 1))" using Suc.hyps(2) by simp
  from Suc.hyps(1) [OF m ok] Suc.prems(2)
  obtain xs' ys' zs' where
    loop: "RemovePoint_loop (i + 1) ?g = Some (g\<lparr>fX := Some xs', fY := Some ys', fZ := Some zs'\<rparr>)"
    and sh: "shifted (Suc (nat i)) (fNpoints g) ?xs xs'" "shifted (Suc (nat i)) (fNpoints g) ?ys ys'"
      "shifted (Suc (nat i)) (fNpoints g) ?zs zs'"
    by (auto simp: ni)
  have lt': "int (nat i) < fNpoints g - 1" using lt Suc.prems(2) by simp
  have "RemovePoint_loop i g = Some (g\<lparr>fX := Some xs', fY := Some ys', fZ := Some zs'\<rparr>)"
    using lt r s loop by (subst RemovePoint_loop.simps) simp
  with sh [THEN shifted_step, OF lt'] a show ?case by auto
qed

text \<open>
  C6: on a graph with well-formed arrays, \<^verbatim>\<open>RemovePoint(ipoint)\<close> with
  \<open>0 \<le> ipoint < fNpoints\<close> returns \<open>ipoint\<close>, lowers \<open>fNpoints\<close> by one, keeps every sample
  below \<open>ipoint\<close> and gives every sample from \<open>ipoint\<close> to the new last index the
  coordinates of its former successor; with \<open>ipoint < 0\<close> or \<open>ipoint \<ge> fNpoints\<close> it returns
  \<open>-1\<close> and the graph is as before.
\<close>

theorem RemovePoint_shifts:
  assumes ok: "arrays_ok g"
  shows "(0 \<le> ipoint \<and> ipoint < fNpoints g \<longrightarrow>
            (\<exists>g'. RemovePoint g ipoint = Some (ipoint, g') \<and>
                  fNpoints g' = fNpoints g - 1 \<and>
                  (\<forall>i < nat ipoint. point g' i = point g i) \<and>
                  (\<forall>i. nat ipoint \<le> i \<and> int i < fNpoints g' \<longrightarrow> point g' i = point g (i + 1)))) \<and>
         (ipoint < 0 \<or> fNpoints g \<le> ipoint \<longrightarrow> RemovePoint g ipoint = Some (- 1, g))"
proof -
  have bad: "RemovePoint g ipoint = Some (- 1, g)" if "ipoint < 0 \<or> fNpoints g \<le> ipoint"
    using that by (auto simp: RemovePoint_def)
  have good: "\<exists>g'. RemovePoint g ipoint = Some (ipoint, g') \<and>
                  fNpoints g' = fNpoints g - 1 \<and>
                  (\<forall>i < nat ipoint. point g' i = point g i) \<and>
                  (\<forall>i. nat ipoint \<le> i \<and> int i < fNpoints g' \<longrightarrow> point g' i = point g (i + 1))"
    if ip: "0 \<le> ipoint" "ipoint < fNpoints g"
  proof -
    from ok obtain xs ys zs where a: "fX g = Some xs" "fY g = Some ys" "fZ g = Some zs"
      and l: "fNpoints g \<le> int (length xs)" "fNpoints g \<le> int (length ys)"
        "fNpoints g \<le> int (length zs)"
      by (rule arrays_okE)
    from RemovePoint_loop_ok [OF ok ip(1)] a obtain xs' ys' zs' where
      loop: "RemovePoint_loop ipoint g = Some (g\<lparr>fX := Some xs', fY := Some ys', fZ := Some zs'\<rparr>)"
      and sh: "shifted (nat ipoint) (fNpoints g) xs xs'" "shifted (nat ipoint) (fNpoints g) ys ys'"
        "shifted (nat ipoint) (fNpoints g) zs zs'"
      by auto
    let ?g2 = "g\<lparr>fX := Some xs', fY := Some ys', fZ := Some zs', fNpoints := fNpoints g - 1\<rparr>"
    let ?g3 = "if fHistogram ?g2 \<noteq> None then ?g2\<lparr>fHistogram := None, fDelaunay := None\<rparr> else ?g2"
    have res: "RemovePoint g ipoint = Some (ipoint, ?g3)"
      using ip loop by (simp add: RemovePoint_def Let_def)
    have n: "fNpoints ?g3 = fNpoints g - 1" by simp
    have arr: "fX ?g3 = Some xs'" "fY ?g3 = Some ys'" "fZ ?g3 = Some zs'" by simp_all
    have low: "point ?g3 i = point g i" if "i < nat ipoint" for i
      using that sh l ip unfolding point_def arr a shifted_def by simp
    have high: "point ?g3 i = point g (i + 1)" if "nat ipoint \<le> i" "int i < fNpoints ?g3" for i
      using that sh l ip unfolding point_def arr a shifted_def n by simp
    from res n low high show ?thesis by blast
  qed
  from bad good show ?thesis by blast
qed

theorem RemovePoint_shifts_witness:
  "arrays_ok sample_duplicates \<and> (0::int) \<le> 1 \<and> 1 < fNpoints sample_duplicates \<and>
   fNpoints sample_duplicates \<le> 4 \<and>
   (\<exists>g'. RemovePoint sample_duplicates 1 = Some (1, g') \<and> fNpoints g' = 3 \<and>
         point g' 0 = (1, 1, 10) \<and> point g' 1 = (1, 1, 30) \<and> point g' 2 = (2, 3, 40)) \<and>
   RemovePoint sample_duplicates 4 = Some (- 1, sample_duplicates) \<and>
   RemovePoint sample_duplicates (- 1) = Some (- 1, sample_duplicates)"
proof -
  have ok: "arrays_ok sample_duplicates"
    by (simp add: sample_duplicates_def TGraph2D_default_def arrays_ok_def)
  have n: "fNpoints sample_duplicates = 4"
    by (simp add: sample_duplicates_def)
  have p: "point sample_duplicates 0 = (1, 1, 10)" "point sample_duplicates 2 = (1, 1, 30)"
    "point sample_duplicates 3 = (2, 3, 40)"
    by (simp_all add: sample_duplicates_def point_def)
  from RemovePoint_shifts [OF ok, of 1] n obtain g' where
    g': "RemovePoint sample_duplicates 1 = Some (1, g')" "fNpoints g' = 3"
    "\<forall>i < nat 1. point g' i = point sample_duplicates i"
    "\<forall>i. nat 1 \<le> i \<and> int i < fNpoints g' \<longrightarrow> point g' i = point sample_duplicates (i + 1)"
    by auto
  from g'(3) have "point g' 0 = point sample_duplicates 0" by simp
  moreover from g'(4) [rule_format, of 1] g'(2) have "point g' 1 = point sample_duplicates 2"
    by (simp add: numeral_2_eq_2)
  moreover from g'(4) [rule_format, of 2] g'(2) have "point g' 2 = point sample_duplicates 3"
    by (simp add: numeral_3_eq_3)
  ultimately have "point g' 0 = (1, 1, 10) \<and> point g' 1 = (1, 1, 30) \<and> point g' 2 = (2, 3, 40)"
    using p by simp
  with g'(1,2) RemovePoint_shifts [OF ok, of 4] RemovePoint_shifts [OF ok, of "- 1"] ok n
  show ?thesis by auto
qed

section \<open>Queries on an empty graph\<close>

text \<open>
  C1 (as amended): with \<open>fNpoints \<le> 0\<close> both queries return without touching the
  samples or the histogram: \<^verbatim>\<open>Interpolate(x, y)\<close> prints an error and returns the number
  0, \<^verbatim>\<open>GetContourList(level)\<close> prints an error and returns the null pointer.
\<close>

theorem Interpolate_GetContourList_empty:
  "fNpoints g \<le> 0 \<Longrightarrow>
     Interpolate ext x y g =
       Some (Num 0, g\<lparr>messages := messages g @ [Error ''Interpolate'' ''Empty TGraph2D'']\<rparr>) \<and>
     GetContourList ext level g =
       Some (None, g\<lparr>messages := messages g @ [Error ''GetContourList'' ''Empty TGraph2D'']\<rparr>)"
  by (simp add: Interpolate_def GetContourList_def)

theorem Interpolate_GetContourList_empty_witness:
  "fNpoints TGraph2D_default \<le> 0 \<and>
   Interpolate sample_externals 1 2 TGraph2D_default =
     Some (Num 0, TGraph2D_default\<lparr>messages := [Error ''Interpolate'' ''Empty TGraph2D'']\<rparr>) \<and>
   GetContourList sample_externals 3 TGraph2D_default =
     Some (None, TGraph2D_default\<lparr>messages := [Error ''GetContourList'' ''Empty TGraph2D'']\<rparr>)"
proof -
  have n: "fNpoints TGraph2D_default \<le> 0" by (simp add: TGraph2D_default_def)
  from Interpolate_GetContourList_empty [OF n, of sample_externals 1 2 3] n show ?thesis
    by (simp add: TGraph2D_default_def)
qed

text \<open>
  C1 as stated fails for \<^verbatim>\<open>Interpolate\<close>: on the default-constructed graph, which has no
  samples, the value returned is the number 0 and not the quiet NaN.
\<close>

theorem Interpolate_empty_not_NaN:
  "fNpoints TGraph2D_default \<le> 0 \<and>
   map_option fst (Interpolate sample_externals 1 2 TGraph2D_default) = Some (Num 0) \<and>
   map_option fst (Interpolate sample_externals 1 2 TGraph2D_default) \<noteq> Some QuietNaN"
  by (simp add: Interpolate_def TGraph2D_default_def)

section \<open>The cached histogram\<close>

text \<open>
  C2 at a concrete graph: \<open>sample_cached\<close> is what \<^verbatim>\<open>SetPoint(0, 0, 0, 0)\<close> and one
  \<^verbatim>\<open>Interpolate\<close> make of a default-constructed graph. \<^verbatim>\<open>SetPoint(1, 5, 5, 5)\<close> then adds
  a second sample and leaves \<open>fHistogram\<close> and \<open>fDelaunay\<close> as they were, so that the next
  \<^verbatim>\<open>Interpolate\<close> is answered by the interpolator made for the one-sample graph.
\<close>

theorem SetPoint_keeps_histogram:
  "SetPoint mem 0 0 0 0 TGraph2D_default = Some sample_single \<and>
   Interpolate ext 0 0 sample_single = Some (ComputeZ ext sample_interpolator 0 0, sample_cached) \<and>
   (\<exists>g2. SetPoint mem 1 5 5 5 sample_cached = Some g2 \<and>
         fNpoints g2 = 2 \<and> point g2 1 = (5, 5, 5) \<and>
         fHistogram g2 = fHistogram sample_cached \<and> fHistogram g2 \<noteq> None \<and>
         fDelaunay g2 = Some sample_interpolator \<and> iNpoints sample_interpolator = 1 \<and>
         Interpolate ext 5 5 g2 = Some (ComputeZ ext sample_interpolator 5 5, g2))"
proof -
  have "\<exists>g2. SetPoint mem 1 5 5 5 sample_cached = Some g2 \<and>
         fNpoints g2 = 2 \<and> point g2 1 = (5, 5, 5) \<and>
         fHistogram g2 = fHistogram sample_cached \<and> fHistogram g2 \<noteq> None \<and>
         fDelaunay g2 = Some sample_interpolator \<and> iNpoints sample_interpolator = 1 \<and>
         Interpolate ext 5 5 g2 = Some (ComputeZ ext sample_interpolator 5 5, g2)"
    by (simp add: SetPoint_def sample_cached_def TGraph2D_default_def reallocate_def
        array_set_def point_def Interpolate_def sample_interpolator_def)
  with sample_single_reached sample_cached_reached show ?thesis by blast
qed

lemmas extrema_defs =
  GetXmaxE_def GetXminE_def GetYmaxE_def GetYminE_def GetZmaxE_def GetZminE_def
  GetXmax_def GetXmin_def GetYmax_def GetYmin_def GetZmax_def GetZmin_def

lemma CreateInterpolator_fields:
  "CreateInterpolator old g = Some g' \<Longrightarrow>
     fHistogram g' \<noteq> None \<and> fDelaunay g' \<noteq> None \<and> fNpoints g' = fNpoints g \<and>
     fMinimum g' = fMinimum g \<and> fMaximum g' = fMaximum g \<and> fZ g' = fZ g"
  by (auto simp: CreateInterpolator_def Let_def split: option.splits if_splits)

lemma GetHistogram_book_fields:
  "GetHistogram_book old g = Some (a, b, c, d, g') \<Longrightarrow>
     fHistogram g' \<noteq> None \<and> fNpoints g' = fNpoints g \<and>
     fMinimum g' = fMinimum g \<and> fMaximum g' = fMaximum g \<and> fZ g' = fZ g"
  by (auto simp: GetHistogram_book_def Let_def split: option.splits if_splits prod.splits
      dest!: CreateInterpolator_fields)

lemma GetHistogram_empty_fields:
  "GetHistogram_empty g = Some g' \<Longrightarrow> fHistogram g' \<noteq> None \<and> fNpoints g' = fNpoints g"
  by (auto simp: GetHistogram_empty_def Let_def split: option.splits if_splits prod.splits)

lemma GetHistogram_empty_option_fields:
  assumes "GetHistogram ext \<lparr>optEmpty = True, optOld = False\<rparr> g = Some g'"
    and "fHistogram g = None"
  shows "fHistogram g' \<noteq> None \<and> fNpoints g' = fNpoints g"
proof (cases "fNpoints g \<le> 0")
  case True
  with assms show ?thesis by (auto simp: GetHistogram_def)
next
  case False
  with assms obtain a b c d g2 where b: "GetHistogram_book False g = Some (a, b, c, d, g2)"
    and e: "GetHistogram_empty g2 = Some g'"
    by (auto simp: GetHistogram_def GetHistogram_existing_def split: option.splits)
  from GetHistogram_book_fields [OF b] GetHistogram_empty_fields [OF e] show ?thesis by simp
qed

lemma Interpolate_cached:
  assumes "fHistogram g \<noteq> None" "1 \<le> fNpoints g" "Interpolate ext x y g = Some (r, g')"
  shows "Interpolate ext x y g' = Some (r, g') \<and> fHistogram g' = fHistogram g \<and>
         fNpoints g' = fNpoints g"
proof -
  from assms(1) obtain h where h: "fHistogram g = Some h" by auto
  from assms(2) have n: "\<not> fNpoints g \<le> 0" by simp
  show ?thesis
  proof (cases "fDelaunay g")
    case (Some d)
    with h n assms(3) have "r = ComputeZ ext d x y" "g' = g"
      by (simp_all add: Interpolate_def)
    with h n Some show ?thesis by (simp add: Interpolate_def)
  next
    case None
    define L where "L =
      (if \<not> kOldInterpolation g
       then (case FindObject (hFunctions h) TGraphDelaunay2D of
               Some d \<Rightarrow> Some d | None \<Rightarrow> FindObject (hFunctions h) TGraphDelaunay)
       else (case FindObject (hFunctions h) TGraphDelaunay of
               Some d \<Rightarrow> Some d | None \<Rightarrow> FindObject (hFunctions h) TGraphDelaunay2D))"
    have first: "Interpolate ext x y g =
        (case L of None \<Rightarrow> Some (QuietNaN, g\<lparr>fDelaunay := L\<rparr>)
         | Some d \<Rightarrow> Some (ComputeZ ext d x y, g\<lparr>fDelaunay := L\<rparr>))"
      using h n None by (auto simp: Interpolate_def Let_def L_def split: option.splits)
    show ?thesis
    proof (cases L)
      case N: None
      with first assms(3) have e: "r = QuietNaN" "g' = g" using None by simp_all
      from first N None e show ?thesis by simp
    next
      case S: (Some d)
      with first assms(3) have e: "r = ComputeZ ext d x y" "g' = g\<lparr>fDelaunay := Some d\<rparr>"
        by simp_all
      have "Interpolate ext x y (g\<lparr>fDelaunay := Some d\<rparr>) =
              Some (ComputeZ ext d x y, g\<lparr>fDelaunay := Some d\<rparr>)"
        using h n by (simp add: Interpolate_def)
      with e show ?thesis by simp
    qed
  qed
qed

lemma Interpolate_builds:
  assumes "fHistogram g = None" "1 \<le> fNpoints g"
  shows "Interpolate ext x y g =
           (case GetHistogram ext \<lparr>optEmpty = True, optOld = False\<rparr> g of
              None \<Rightarrow> None
            | Some g1 \<Rightarrow> Interpolate ext x y g1)"
proof (cases "GetHistogram ext \<lparr>optEmpty = True, optOld = False\<rparr> g")
  case None
  with assms show ?thesis by (simp add: Interpolate_def)
next
  case (Some g1)
  from GetHistogram_empty_option_fields [OF Some assms(1)] assms(2)
  have "fHistogram g1 \<noteq> None" "\<not> fNpoints g1 \<le> 0" by simp_all
  with Some assms show ?thesis by (auto simp: Interpolate_def)
qed

lemma array_extrema_Some:
  "1 \<le> n \<Longrightarrow> n \<le> int (length xs) \<Longrightarrow>
     array_max (Some xs) n \<noteq> None \<and> array_min (Some xs) n \<noteq> None"
  by (auto simp: array_max_def array_min_def)

lemma GetHistogram_empty_option_returns:
  assumes ok: "arrays_ok g" and n: "1 \<le> fNpoints g" and h: "fHistogram g = None"
    and u: "\<not> fUserHisto g"
  shows "\<exists>g'. GetHistogram ext \<lparr>optEmpty = True, optOld = False\<rparr> g = Some g'"
proof -
  from ok obtain xs ys zs where a: "fX g = Some xs" "fY g = Some ys" "fZ g = Some zs"
    and l: "fNpoints g \<le> int (length xs)" "fNpoints g \<le> int (length ys)"
      "fNpoints g \<le> int (length zs)"
    by (rule arrays_okE)
  from array_extrema_Some [OF n l(1)] array_extrema_Some [OF n l(2)] a
  obtain xmax xmin ymax ymin where e: "GetXmaxE g = Some xmax" "GetXminE g = Some xmin"
    "GetYmaxE g = Some ymax" "GetYminE g = Some ymin"
    by (auto simp: extrema_defs)
  from e h u have "\<exists>res. GetHistogram_book False g = Some res"
    by (simp add: GetHistogram_book_def CreateInterpolator_def Let_def split: prod.splits)
  then obtain p q r s g2 where b: "GetHistogram_book False g = Some (p, q, r, s, g2)"
    by (metis prod_cases5)
  from GetHistogram_book_fields [OF b] a array_extrema_Some [OF n l(3)]
  obtain h2 zmin zmax where z: "fHistogram g2 = Some h2" "GetZminE g2 = Some zmin"
    "GetZmaxE g2 = Some zmax"
    by (auto simp: extrema_defs)
  then have "\<exists>g'. GetHistogram_empty g2 = Some g'"
    by (simp add: GetHistogram_empty_def Let_def split: prod.splits)
  then obtain g' where "GetHistogram_empty g2 = Some g'" ..
  with b n h show ?thesis
    by (auto simp: GetHistogram_def GetHistogram_existing_def)
qed

lemma Interpolate_cached_returns:
  assumes "fHistogram g \<noteq> None" "1 \<le> fNpoints g"
  shows "\<exists>r g'. Interpolate ext x y g = Some (r, g')"
proof -
  from assms(1) obtain h where h: "fHistogram g = Some h" by auto
  from assms(2) have n: "\<not> fNpoints g \<le> 0" by simp
  show ?thesis
  proof (cases "fDelaunay g")
    case (Some d)
    with h n show ?thesis by (simp add: Interpolate_def)
  next
    case None
    with h n show ?thesis by (simp add: Interpolate_def Let_def split: option.splits)
  qed
qed

text \<open>
  Where the first \<^verbatim>\<open>Interpolate(x, y)\<close> returns \<open>r\<close> and leaves the graph \<open>g1\<close>, the same
  call on \<open>g1\<close> returns \<open>r\<close> again and leaves \<open>g1\<close> as it is. The first call returns
  when the arrays are well formed and a graph without histogram is not marked as using
  a user histogram.
\<close>

lemma Interpolate_repeated:
  assumes n: "1 \<le> fNpoints g"
  shows "(Interpolate ext x y g = Some (r, g1) \<longrightarrow>
            Interpolate ext x y g1 = Some (r, g1) \<and> fHistogram g1 \<noteq> None \<and>
            (fHistogram g \<noteq> None \<longrightarrow> fHistogram g1 = fHistogram g)) \<and>
         (arrays_ok g \<and> (fHistogram g = None \<longrightarrow> \<not> fUserHisto g) \<longrightarrow>
            (\<exists>r' g'. Interpolate ext x y g = Some (r', g')))"
proof -
  have A: "Interpolate ext x y g1 = Some (r, g1) \<and> fHistogram g1 \<noteq> None \<and>
           (fHistogram g \<noteq> None \<longrightarrow> fHistogram g1 = fHistogram g)"
    if i: "Interpolate ext x y g = Some (r, g1)"
  proof (cases "fHistogram g = None")
    case False
    from Interpolate_cached [OF False n i] False show ?thesis by simp
  next
    case True
    from i Interpolate_builds [OF True n, of ext x y] obtain g0 where
      g0: "GetHistogram ext \<lparr>optEmpty = True, optOld = False\<rparr> g = Some g0"
      and i0: "Interpolate ext x y g0 = Some (r, g1)"
      by (auto split: option.splits)
    from GetHistogram_empty_option_fields [OF g0 True] n
    have h0: "fHistogram g0 \<noteq> None" and n0: "1 \<le> fNpoints g0" by simp_all
    from Interpolate_cached [OF h0 n0 i0] h0 True show ?thesis by simp
  qed
  have B: "\<exists>r' g'. Interpolate ext x y g = Some (r', g')"
    if ok: "arrays_ok g" and u: "fHistogram g = None \<longrightarrow> \<not> fUserHisto g"
  proof (cases "fHistogram g = None")
    case False
    from Interpolate_cached_returns [OF False n] show ?thesis .
  next
    case True
    with u have nu: "\<not> fUserHisto g" by simp
    from GetHistogram_empty_option_returns [OF ok n True nu, of ext] obtain g0 where
      g0: "GetHistogram ext \<lparr>optEmpty = True, optOld = False\<rparr> g = Some g0" ..
    from GetHistogram_empty_option_fields [OF g0 True] n
    have h0: "fHistogram g0 \<noteq> None" and n0: "1 \<le> fNpoints g0" by simp_all
    from Interpolate_cached_returns [OF h0 n0, of ext x y] g0 Interpolate_builds [OF True n, of ext x y]
    show ?thesis by simp
  qed
  show ?thesis using A B by (intro conjI impI) auto
qed

text \<open>
  C4 at a concrete graph: the graph with the single sample \<open>(0, 0, 0)\<close> receives a user
  histogram through \<^verbatim>\<open>SetHistogram\<close>; \<^verbatim>\<open>SetNpx(10)\<close> then deletes that histogram and
  leaves \<open>fUserHisto\<close> set. On this graph, which has one sample in well-formed arrays,
  \<^verbatim>\<open>Interpolate(x, y)\<close> calls \<^verbatim>\<open>GetHistogram("empty")\<close>, which reads the axis limits of the
  missing histogram: the call has no result, for any \<open>(x, y)\<close>, and so no two results
  to compare.
\<close>

theorem Interpolate_after_user_histogram_deleted:
  "SetPoint mem 0 0 0 0 TGraph2D_default = Some sample_single \<and>
   (\<exists>g1. SetHistogram sample_user_histogram False sample_single = Some g1 \<and>
         fHistogram g1 = Some (sample_user_histogram\<lparr>hFunctions := [the (fDelaunay g1)]\<rparr>) \<and>
         fNpoints (SetNpx 10 g1) = 1 \<and> arrays_ok (SetNpx 10 g1) \<and>
         fUserHisto (SetNpx 10 g1) \<and> fHistogram (SetNpx 10 g1) = None \<and>
         GetHistogram ext \<lparr>optEmpty = True, optOld = False\<rparr> (SetNpx 10 g1) = None \<and>
         Interpolate ext x y (SetNpx 10 g1) = None)"
proof -
  have "\<exists>g1. SetHistogram sample_user_histogram False sample_single = Some g1 \<and>
         fHistogram g1 = Some (sample_user_histogram\<lparr>hFunctions := [the (fDelaunay g1)]\<rparr>) \<and>
         fNpoints (SetNpx 10 g1) = 1 \<and> arrays_ok (SetNpx 10 g1) \<and>
         fUserHisto (SetNpx 10 g1) \<and> fHistogram (SetNpx 10 g1) = None \<and>
         GetHistogram ext \<lparr>optEmpty = True, optOld = False\<rparr> (SetNpx 10 g1) = None \<and>
         Interpolate ext x y (SetNpx 10 g1) = None"
    by (simp add: SetHistogram_def CreateInterpolator_def FindObject_def sample_user_histogram_def
        new_TH2D_def sample_single_def TGraph2D_default_def SetNpx_def Let_def arrays_ok_def
        Interpolate_def GetHistogram_def GetHistogram_existing_def GetHistogram_book_def)
  with sample_single_reached show ?thesis by blast
qed

section \<open>Filling the histogram\<close>

lemma fold_Fill:
  "fold (\<lambda>i h1. Fill h1 (X i) (Y i) (Z i)) is h =
     h\<lparr>hFills := hFills h @ map (\<lambda>i. (X i, Y i, Z i)) is,
       hEntries := hEntries h + int (length is)\<rparr>"
proof (induction "is" arbitrary: h)
  case Nil
  show ?case by simp
next
  case (Cons i "is")
  show ?case by (simp add: Cons.IH) (simp add: Fill_def)
qed

lemma fill_column_eq:
  "fill_column ext d x hymin dy npy h =
     h\<lparr>hFills := hFills h @
          map (\<lambda>iy. (x, hymin + (real_of_int iy - 0.5) * dy,
                      ComputeZ ext d x (hymin + (real_of_int iy - 0.5) * dy))) [1..npy],
       hEntries := hEntries h + int (length [1..npy])\<rparr>"
  unfolding fill_column_def Let_def by (rule fold_Fill)

lemma fold_fill_column:
  "fold (\<lambda>ix h1. fill_column ext d (X ix) hymin dy npy h1) is h =
     h\<lparr>hFills := hFills h @
          concat (map (\<lambda>ix. map (\<lambda>iy. (X ix, hymin + (real_of_int iy - 0.5) * dy,
                      ComputeZ ext d (X ix) (hymin + (real_of_int iy - 0.5) * dy))) [1..npy]) is),
       hEntries := hEntries h + int (length is * length [1..npy])\<rparr>"
proof (induction "is" arbitrary: h)
  case Nil
  show ?case by simp
next
  case (Cons i "is")
  show ?case by (simp add: Cons.IH) (simp add: fill_column_eq algebra_simps)
qed

lemma fill_grid_eq:
  "fill_grid ext d hxmin dx hymin dy npx npy h =
     h\<lparr>hFills := hFills h @
          concat (map (\<lambda>ix. map (\<lambda>iy. (hxmin + (real_of_int ix - 0.5) * dx,
                                         hymin + (real_of_int iy - 0.5) * dy,
                                         ComputeZ ext d (hxmin + (real_of_int ix - 0.5) * dx)
                                                        (hymin + (real_of_int iy - 0.5) * dy)))
                                 [1..npy]) [1..npx]),
       hEntries := hEntries h + int (length [1..npx] * length [1..npy])\<rparr>"
  unfolding fill_grid_def Let_def by (rule fold_fill_column)


lemma widen_limits_regular:
  "\<not> AreEqualRel b a (1 / 10 ^ 9) \<Longrightarrow> widen_limits a b = (a, b)"
  by (simp add: widen_limits_def)

lemma book_fresh:
  assumes h: "fHistogram g = None" and u: "\<not> fUserHisto g"
    and x: "GetXmin g = Some xmin" "GetXmax g = Some xmax"
    and y: "GetYmin g = Some ymin" "GetYmax g = Some ymax"
    and wx: "widen_limits (xmin - fMargin g * (xmax - xmin)) (xmax + fMargin g * (xmax - xmin))
               = (hxmin, hxmax)"
    and wy: "widen_limits (ymin - fMargin g * (ymax - ymin)) (ymax + fMargin g * (ymax - ymin))
               = (hymin, hymax)"
    and d: "d = \<lparr> iClass = (if old then TGraphDelaunay else TGraphDelaunay2D), iX = fX g,
                  iY = fY g, iZ = fZ g, iNpoints = fNpoints g,
                  iMaxIter = (if old then Some (fMaxIter g) else None), iZout = fZout g \<rparr>"
  shows "GetHistogram_book old g =
           Some (hxmin, hxmax, hymin, hymax,
                 g\<lparr> fDelaunay := Some d, kOldInterpolation := old,
                    fHistogram := Some ((new_TH2D (fName g) (fTitle g) (fNpx g) hxmin hxmax
                                           (fNpy g) hymin hymax)
                                          \<lparr>hFunctions := [d], hNoStats := True, hSumw2 := False\<rparr>) \<rparr>)"
  using h u x y wx wy d
  by (simp add: GetHistogram_book_def GetXmaxE_def GetXminE_def GetYmaxE_def GetYminE_def
      CreateInterpolator_def Let_def new_TH2D_def FindObject_def)

lemma set_z_range_fields:
  "hNbinsX (set_z_range ext g a b h) = hNbinsX h \<and> hNbinsY (set_z_range ext g a b h) = hNbinsY h \<and>
   hXmin (set_z_range ext g a b h) = hXmin h \<and> hXmax (set_z_range ext g a b h) = hXmax h \<and>
   hYmin (set_z_range ext g a b h) = hYmin h \<and> hYmax (set_z_range ext g a b h) = hYmax h \<and>
   hFunctions (set_z_range ext g a b h) = hFunctions h \<and>
   hFills (set_z_range ext g a b h) = hFills h"
  by (simp add: set_z_range_def Let_def)

lemma fill_fresh:
  assumes h: "fHistogram g = Some h0" and d: "fDelaunay g = Some d"
    and c: "iClass d = (if old then TGraphDelaunay else TGraphDelaunay2D)"
    and z: "GetZmin g = Some zmin" "GetZmax g = Some zmax"
  shows "\<exists>h. GetHistogram_fill ext old hxmin hxmax hymin hymax g = Some (g\<lparr>fHistogram := Some h\<rparr>) \<and>
             hNbinsX h = hNbinsX h0 \<and> hNbinsY h = hNbinsY h0 \<and>
             hXmin h = hXmin h0 \<and> hXmax h = hXmax h0 \<and> hYmin h = hYmin h0 \<and> hYmax h = hYmax h0 \<and>
             hFunctions h = hFunctions h0 \<and>
             hFills h = hFills h0 @
               cell_centre_values ext d hxmin hxmax hymin hymax (fNpx g) (fNpy g)"
proof -
  define cells where "cells = cell_centre_values ext d hxmin hxmax hymin hymax (fNpx g) (fNpy g)"
  define h1 where "h1 =
    (if 1 \<le> fNpx g \<and> 1 \<le> fNpy g
     then fill_grid ext d hxmin ((hxmax - hxmin) / real_of_int (fNpx g))
            hymin ((hymax - hymin) / real_of_int (fNpy g)) (fNpx g) (fNpy g) h0
     else h0)"
  have r: "GetHistogram_fill ext old hxmin hxmax hymin hymax g =
             Some (g\<lparr>fHistogram := Some (set_z_range ext g zmin zmax h1)\<rparr>)"
    using h d c z
    by (simp add: GetHistogram_fill_def GetZminE_def GetZmaxE_def Let_def h1_def)
  have e: "cells = []" if "\<not> (1 \<le> fNpx g \<and> 1 \<le> fNpy g)"
    using that by (auto simp: cells_def cell_centre_values_def)
  have f1: "hFills h1 = hFills h0 @ cells"
  proof (cases "1 \<le> fNpx g \<and> 1 \<le> fNpy g")
    case True
    then show ?thesis
      by (simp add: h1_def fill_grid_eq cells_def cell_centre_values_def Let_def)
  next
    case False
    with e show ?thesis by (auto simp: h1_def)
  qed
  have f2: "hNbinsX h1 = hNbinsX h0 \<and> hNbinsY h1 = hNbinsY h0 \<and>
        hXmin h1 = hXmin h0 \<and> hXmax h1 = hXmax h0 \<and> hYmin h1 = hYmin h0 \<and> hYmax h1 = hYmax h0 \<and>
        hFunctions h1 = hFunctions h0"
    by (simp add: h1_def fill_grid_eq)
  from r f1 f2 set_z_range_fields [of ext g zmin zmax h1] show ?thesis
    unfolding cells_def by (intro exI [of _ "set_z_range ext g zmin zmax h1"]) simp
qed

lemma upto_1_4: "[1..4::int] = [1, 2, 3, 4]"
  by (simp add: upto.simps [of 1])

lemma fold_min_Min:
  "Suc 0 \<le> k \<Longrightarrow> k \<le> length xs \<Longrightarrow>
     fold (\<lambda>i v. if xs ! i < v then xs ! i else v) [Suc 0..<k] (xs ! 0) = Min (set (take k xs))"
proof (induction k)
  case 0
  then show ?case by simp
next
  case (Suc k)
  let ?f = "\<lambda>i v. if xs ! i < v then xs ! i else v"
  show ?case
  proof (cases "k = 0")
    case True
    with Suc.prems show ?thesis by (cases xs) simp_all
  next
    case False
    with Suc have IH: "fold ?f [Suc 0..<k] (xs ! 0) = Min (set (take k xs))"
      by simp
    from False Suc.prems have ne: "set (take k xs) \<noteq> {}" by (cases xs) auto
    from Suc.prems have t: "take (Suc k) xs = take k xs @ [xs ! k]"
      by (simp add: take_Suc_conv_app_nth)
    from False have u: "[Suc 0..<Suc k] = [Suc 0..<k] @ [k]" by simp
    have "fold ?f [Suc 0..<Suc k] (xs ! 0) = ?f k (fold ?f [Suc 0..<k] (xs ! 0))"
      unfolding u by simp
    also have "\<dots> = min (xs ! k) (Min (set (take k xs)))"
      unfolding IH by (auto simp: min_def)
    also have "\<dots> = Min (set (take (Suc k) xs))"
      unfolding t using ne by simp
    finally show ?thesis .
  qed
qed

lemma fold_max_Max:
  "Suc 0 \<le> k \<Longrightarrow> k \<le> length xs \<Longrightarrow>
     fold (\<lambda>i v. if xs ! i > v then xs ! i else v) [Suc 0..<k] (xs ! 0) = Max (set (take k xs))"
proof (induction k)
  case 0
  then show ?case by simp
next
  case (Suc k)
  let ?f = "\<lambda>i v. if xs ! i > v then xs ! i else v"
  show ?case
  proof (cases "k = 0")
    case True
    with Suc.prems show ?thesis by (cases xs) simp_all
  next
    case False
    with Suc have IH: "fold ?f [Suc 0..<k] (xs ! 0) = Max (set (take k xs))"
      by simp
    from False Suc.prems have ne: "set (take k xs) \<noteq> {}" by (cases xs) auto
    from Suc.prems have t: "take (Suc k) xs = take k xs @ [xs ! k]"
      by (simp add: take_Suc_conv_app_nth)
    from False have u: "[Suc 0..<Suc k] = [Suc 0..<k] @ [k]" by simp
    have "fold ?f [Suc 0..<Suc k] (xs ! 0) = ?f k (fold ?f [Suc 0..<k] (xs ! 0))"
      unfolding u by simp
    also have "\<dots> = max (xs ! k) (Max (set (take k xs)))"
      unfolding IH by (auto simp: max_def)
    also have "\<dots> = Max (set (take (Suc k) xs))"
      unfolding t using ne by simp
    finally show ?thesis .
  qed
qed

lemma extrema_bounding_box:
  assumes ok: "arrays_ok g" and n: "1 \<le> fNpoints g"
  shows "GetXmin g = Some (Min (set (map fst (points g))))"
    and "GetXmax g = Some (Max (set (map fst (points g))))"
    and "GetYmin g = Some (Min (set (map (fst \<circ> snd) (points g))))"
    and "GetYmax g = Some (Max (set (map (fst \<circ> snd) (points g))))"
proof -
  from ok obtain xs ys zs where a: "fX g = Some xs" "fY g = Some ys" "fZ g = Some zs"
    and l: "fNpoints g \<le> int (length xs)" "fNpoints g \<le> int (length ys)"
      "fNpoints g \<le> int (length zs)"
    by (rule arrays_okE)
  have k: "Suc 0 \<le> nat (fNpoints g)" "nat (fNpoints g) \<le> length xs" "nat (fNpoints g) \<le> length ys"
    using n l by simp_all
  have px: "map fst (points g) = take (nat (fNpoints g)) xs"
    using k by (intro nth_equalityI) (simp_all add: points_def point_def a)
  have py: "map (fst \<circ> snd) (points g) = take (nat (fNpoints g)) ys"
    using k by (intro nth_equalityI) (simp_all add: points_def point_def a)
  have ne: "xs \<noteq> []" "ys \<noteq> []" using k by auto
  show "GetXmin g = Some (Min (set (map fst (points g))))"
    unfolding px using fold_min_Min [OF k(1,2)] ne l
    by (simp add: GetXmin_def array_min_def a)
  show "GetXmax g = Some (Max (set (map fst (points g))))"
    unfolding px using fold_max_Max [OF k(1,2)] ne l
    by (simp add: GetXmax_def array_max_def a)
  show "GetYmin g = Some (Min (set (map (fst \<circ> snd) (points g))))"
    unfolding py using fold_min_Min [OF k(1,3)] ne l
    by (simp add: GetYmin_def array_min_def a)
  show "GetYmax g = Some (Max (set (map (fst \<circ> snd) (points g))))"
    unfolding py using fold_max_Max [OF k(1,3)] ne l
    by (simp add: GetYmax_def array_max_def a)
qed

text \<open>The two outcomes of \<^verbatim>\<open>GetHistogram\<close> without \<^verbatim>\<open>"empty"\<close>, in terms of the limits
  that \<open>widen_limits\<close> gives.\<close>

lemma GetHistogram_cached_or_filled:
  assumes n: "1 \<le> fNpoints g" and u: "\<not> fUserHisto g" and e: "\<not> optEmpty option"
    and ok: "arrays_ok g"
    and x: "GetXmin g = Some xmin" "GetXmax g = Some xmax"
    and y: "GetYmin g = Some ymin" "GetYmax g = Some ymax"
    and wx: "widen_limits (xmin - fMargin g * (xmax - xmin)) (xmax + fMargin g * (xmax - xmin))
               = (hxmin, hxmax)"
    and wy: "widen_limits (ymin - fMargin g * (ymax - ymin)) (ymax + fMargin g * (ymax - ymin))
               = (hymin, hymax)"
  shows "((\<exists>h. fHistogram g = Some h \<and> hEntries h \<noteq> 0 \<and> kOldInterpolation g = optOld option) \<longrightarrow>
            GetHistogram ext option g = Some g) \<and>
         (\<not> (\<exists>h. fHistogram g = Some h \<and> hEntries h \<noteq> 0 \<and> kOldInterpolation g = optOld option) \<longrightarrow>
            (\<exists>g' h d. GetHistogram ext option g = Some g' \<and>
                fHistogram g' = Some h \<and> fDelaunay g' = Some d \<and> hFunctions h = [d] \<and>
                iClass d = (if optOld option then TGraphDelaunay else TGraphDelaunay2D) \<and>
                iX d = fX g \<and> iY d = fY g \<and> iZ d = fZ g \<and> iNpoints d = fNpoints g \<and>
                iZout d = fZout g \<and>
                hNbinsX h = fNpx g \<and> hNbinsY h = fNpy g \<and>
                hXmin h = hxmin \<and> hXmax h = hxmax \<and> hYmin h = hymin \<and> hYmax h = hymax \<and>
                hFills h = cell_centre_values ext d hxmin hxmax hymin hymax (fNpx g) (fNpy g))) \<and>
         (\<not> AreEqualRel (xmax + fMargin g * (xmax - xmin)) (xmin - fMargin g * (xmax - xmin))
               (1 / 10 ^ 9) \<longrightarrow>
            hxmin = xmin - fMargin g * (xmax - xmin) \<and> hxmax = xmax + fMargin g * (xmax - xmin)) \<and>
         (\<not> AreEqualRel (ymax + fMargin g * (ymax - ymin)) (ymin - fMargin g * (ymax - ymin))
               (1 / 10 ^ 9) \<longrightarrow>
            hymin = ymin - fMargin g * (ymax - ymin) \<and> hymax = ymax + fMargin g * (ymax - ymin)) \<and>
         xmin = Min (set (map fst (points g))) \<and> xmax = Max (set (map fst (points g))) \<and>
         ymin = Min (set (map (fst \<circ> snd) (points g))) \<and>
         ymax = Max (set (map (fst \<circ> snd) (points g)))"
proof -
  let ?reuse = "\<exists>h. fHistogram g = Some h \<and> hEntries h \<noteq> 0 \<and> kOldInterpolation g = optOld option"
  from n have n0: "\<not> fNpoints g \<le> 0" by simp
  have A: "GetHistogram ext option g = Some g" if ?reuse
    using that n0 e by (auto simp: GetHistogram_def GetHistogram_existing_def)
  have B: "\<exists>g' h d. GetHistogram ext option g = Some g' \<and>
                fHistogram g' = Some h \<and> fDelaunay g' = Some d \<and> hFunctions h = [d] \<and>
                iClass d = (if optOld option then TGraphDelaunay else TGraphDelaunay2D) \<and>
                iX d = fX g \<and> iY d = fY g \<and> iZ d = fZ g \<and> iNpoints d = fNpoints g \<and>
                iZout d = fZout g \<and>
                hNbinsX h = fNpx g \<and> hNbinsY h = fNpy g \<and>
                hXmin h = hxmin \<and> hXmax h = hxmax \<and> hYmin h = hymin \<and> hYmax h = hymax \<and>
                hFills h = cell_centre_values ext d hxmin hxmax hymin hymax (fNpx g) (fNpy g)"
    if nr: "\<not> ?reuse"
  proof -
    define g1 where "g1 = (if fHistogram g = None then g
                           else g\<lparr>fHistogram := None, fDelaunay := None\<rparr>)"
    define d where "d = \<lparr> iClass = (if optOld option then TGraphDelaunay else TGraphDelaunay2D),
        iX = fX g1, iY = fY g1, iZ = fZ g1, iNpoints = fNpoints g1,
        iMaxIter = (if optOld option then Some (fMaxIter g1) else None), iZout = fZout g1 \<rparr>"
    define h0 where "h0 = (new_TH2D (fName g1) (fTitle g1) (fNpx g1) hxmin hxmax
                             (fNpy g1) hymin hymax)
                            \<lparr>hFunctions := [d], hNoStats := True, hSumw2 := False\<rparr>"
    define g2 where "g2 = g1\<lparr>fDelaunay := Some d, kOldInterpolation := optOld option,
                              fHistogram := Some h0\<rparr>"
    have same: "fX g1 = fX g" "fY g1 = fY g" "fZ g1 = fZ g" "fNpoints g1 = fNpoints g"
      "fZout g1 = fZout g" "fNpx g1 = fNpx g" "fNpy g1 = fNpy g" "fMargin g1 = fMargin g"
      "fUserHisto g1 = fUserHisto g" "fHistogram g1 = None"
      by (simp_all add: g1_def)
    have ex: "GetHistogram_existing (optEmpty option) (optOld option) g = Inr g1"
      using nr e u by (auto simp: GetHistogram_existing_def g1_def split: option.splits)
    have x1: "GetXmin g1 = Some xmin" "GetXmax g1 = Some xmax"
      and y1: "GetYmin g1 = Some ymin" "GetYmax g1 = Some ymax"
      using x y by (simp_all add: GetXmin_def GetXmax_def GetYmin_def GetYmax_def same)
    have bk: "GetHistogram_book (optOld option) g1 = Some (hxmin, hxmax, hymin, hymax, g2)"
      unfolding g2_def h0_def
      by (rule book_fresh [OF same(10) _ x1 y1 _ _ d_def]) (simp_all add: same u wx wy)
    from ok obtain zs where zs: "fZ g = Some zs" "fNpoints g \<le> int (length zs)"
      by (rule arrays_okE)
    from array_extrema_Some [OF n zs(2)] zs(1) obtain zmin zmax where
      z: "GetZmin g2 = Some zmin" "GetZmax g2 = Some zmax"
      by (auto simp: GetZmin_def GetZmax_def g2_def same)
    have hd: "fHistogram g2 = Some h0" "fDelaunay g2 = Some d"
      "iClass d = (if optOld option then TGraphDelaunay else TGraphDelaunay2D)"
      by (simp_all add: g2_def d_def)
    from fill_fresh [OF hd z, of ext hxmin hxmax hymin hymax] obtain h where
      fl: "GetHistogram_fill ext (optOld option) hxmin hxmax hymin hymax g2 =
             Some (g2\<lparr>fHistogram := Some h\<rparr>)"
      and hf: "hNbinsX h = hNbinsX h0" "hNbinsY h = hNbinsY h0" "hXmin h = hXmin h0"
        "hXmax h = hXmax h0" "hYmin h = hYmin h0" "hYmax h = hYmax h0"
        "hFunctions h = hFunctions h0"
        "hFills h = hFills h0 @ cell_centre_values ext d hxmin hxmax hymin hymax (fNpx g2) (fNpy g2)"
      by blast
    have res: "GetHistogram ext option g = Some (g2\<lparr>fHistogram := Some h\<rparr>)"
      using n0 e ex bk fl by (simp add: GetHistogram_def)
    have h0f: "hNbinsX h0 = fNpx g" "hNbinsY h0 = fNpy g" "hXmin h0 = hxmin" "hXmax h0 = hxmax"
      "hYmin h0 = hymin" "hYmax h0 = hymax" "hFunctions h0 = [d]" "hFills h0 = []"
      by (simp_all add: h0_def new_TH2D_def same)
    have df: "iX d = fX g" "iY d = fY g" "iZ d = fZ g" "iNpoints d = fNpoints g"
      "iZout d = fZout g"
      by (simp_all add: d_def same)
    have np: "fNpx g2 = fNpx g" "fNpy g2 = fNpy g" by (simp_all add: g2_def same)
    show ?thesis
      apply (rule exI [of _ "g2\<lparr>fHistogram := Some h\<rparr>"])
      apply (rule exI [of _ h])
      apply (rule exI [of _ d])
      using res hf h0f df hd np apply simp
      done
  qed
  have C: "hxmin = xmin - fMargin g * (xmax - xmin) \<and> hxmax = xmax + fMargin g * (xmax - xmin)"
    if "\<not> AreEqualRel (xmax + fMargin g * (xmax - xmin)) (xmin - fMargin g * (xmax - xmin))
               (1 / 10 ^ 9)"
    using widen_limits_regular [OF that] wx by simp
  have D: "hymin = ymin - fMargin g * (ymax - ymin) \<and> hymax = ymax + fMargin g * (ymax - ymin)"
    if "\<not> AreEqualRel (ymax + fMargin g * (ymax - ymin)) (ymin - fMargin g * (ymax - ymin))
               (1 / 10 ^ 9)"
    using widen_limits_regular [OF that] wy by simp
  have E: "xmin = Min (set (map fst (points g)))" "xmax = Max (set (map fst (points g)))"
    "ymin = Min (set (map (fst \<circ> snd) (points g)))"
    "ymax = Max (set (map (fst \<circ> snd) (points g)))"
    using extrema_bounding_box [OF ok n] x y by simp_all
  show ?thesis using A B C D E by (intro conjI impI) blast+
qed

lemma widen_limits_cases:
  assumes "widen_limits a b = (lo, hi)"
  shows "(\<not> (b = a \<or> \<bar>b - a\<bar> \<le> 0.5 * (1 / 10 ^ 9) * (\<bar>b\<bar> + \<bar>a\<bar>)) \<longrightarrow> lo = a \<and> hi = b) \<and>
         ((b = a \<or> \<bar>b - a\<bar> \<le> 0.5 * (1 / 10 ^ 9) * (\<bar>b\<bar> + \<bar>a\<bar>)) \<and> \<bar>a\<bar> < 1 / 10 ^ 9 \<longrightarrow>
            lo = - 0.001 \<and> hi = 0.001) \<and>
         ((b = a \<or> \<bar>b - a\<bar> \<le> 0.5 * (1 / 10 ^ 9) * (\<bar>b\<bar> + \<bar>a\<bar>)) \<and> 1 / 10 ^ 9 \<le> \<bar>a\<bar> \<longrightarrow>
            lo = a - \<bar>a\<bar> * (1 / 10 ^ 9 / 2) \<and> hi = b + \<bar>b\<bar> * (1 / 10 ^ 9 / 2))"
  using assms by (auto simp: widen_limits_def AreEqualRel_def Let_def split: if_splits)

text \<open>
  C3 (as amended): for a graph with at least one sample, well-formed arrays and no user
  histogram, \<^verbatim>\<open>GetHistogram\<close> without \<^verbatim>\<open>"empty"\<close> returns the graph as it is when it
  holds a histogram with entries made for the requested interpolation. Otherwise it
  books a histogram of \<open>fNpx \<times> fNpy\<close> bins with a new interpolator of the graph and makes
  exactly one \<^verbatim>\<open>Fill\<close> per cell \<open>(ix, iy)\<close>, at the cell centre
  \<open>(hxmin + (ix - 0.5) dx, hymin + (iy - 0.5) dy)\<close> of the booked box with the
  interpolator's value there. With \<open>ax = xmin - fMargin (xmax - xmin)\<close> and
  \<open>bx = xmax + fMargin (xmax - xmin)\<close>, where \<open>xmin\<close> and \<open>xmax\<close> are the least and greatest
  \<open>x\<close> of the samples, the booked box is \<open>[ax, bx]\<close> unless \<open>bx = ax\<close> or
  \<open>|bx - ax| \<le> 0.5e-9 (|bx| + |ax|)\<close>; in that case it is \<open>[-0.001, 0.001]\<close> when
  \<open>|ax| < 1e-9\<close> and \<open>[ax - 0.5e-9 |ax|, bx + 0.5e-9 |bx|]\<close> otherwise. The same holds
  in y.
\<close>

theorem GetHistogram_fills_cells:
  assumes n: "1 \<le> fNpoints g" and u: "\<not> fUserHisto g" and e: "\<not> optEmpty option"
    and ok: "arrays_ok g"
    and x: "GetXmin g = Some xmin" "GetXmax g = Some xmax"
    and y: "GetYmin g = Some ymin" "GetYmax g = Some ymax"
    and ax: "ax = xmin - fMargin g * (xmax - xmin)" and bx: "bx = xmax + fMargin g * (xmax - xmin)"
    and ay: "ay = ymin - fMargin g * (ymax - ymin)" and "by": "by = ymax + fMargin g * (ymax - ymin)"
  shows "((\<exists>h. fHistogram g = Some h \<and> hEntries h \<noteq> 0 \<and> kOldInterpolation g = optOld option) \<longrightarrow>
            GetHistogram ext option g = Some g) \<and>
         (\<not> (\<exists>h. fHistogram g = Some h \<and> hEntries h \<noteq> 0 \<and> kOldInterpolation g = optOld option) \<longrightarrow>
            (\<exists>g' h d. GetHistogram ext option g = Some g' \<and>
                fHistogram g' = Some h \<and> fDelaunay g' = Some d \<and> hFunctions h = [d] \<and>
                iClass d = (if optOld option then TGraphDelaunay else TGraphDelaunay2D) \<and>
                iX d = fX g \<and> iY d = fY g \<and> iZ d = fZ g \<and> iNpoints d = fNpoints g \<and>
                iZout d = fZout g \<and>
                hNbinsX h = fNpx g \<and> hNbinsY h = fNpy g \<and>
                hFills h = cell_centre_values ext d (hXmin h) (hXmax h) (hYmin h) (hYmax h)
                             (fNpx g) (fNpy g) \<and>
                (\<not> (bx = ax \<or> \<bar>bx - ax\<bar> \<le> 0.5 * (1 / 10 ^ 9) * (\<bar>bx\<bar> + \<bar>ax\<bar>)) \<longrightarrow>
                   hXmin h = ax \<and> hXmax h = bx) \<and>
                ((bx = ax \<or> \<bar>bx - ax\<bar> \<le> 0.5 * (1 / 10 ^ 9) * (\<bar>bx\<bar> + \<bar>ax\<bar>)) \<and> \<bar>ax\<bar> < 1 / 10 ^ 9 \<longrightarrow>
                   hXmin h = - 0.001 \<and> hXmax h = 0.001) \<and>
                ((bx = ax \<or> \<bar>bx - ax\<bar> \<le> 0.5 * (1 / 10 ^ 9) * (\<bar>bx\<bar> + \<bar>ax\<bar>)) \<and> 1 / 10 ^ 9 \<le> \<bar>ax\<bar> \<longrightarrow>
                   hXmin h = ax - \<bar>ax\<bar> * (1 / 10 ^ 9 / 2) \<and> hXmax h = bx + \<bar>bx\<bar> * (1 / 10 ^ 9 / 2)) \<and>
                (\<not> (by = ay \<or> \<bar>by - ay\<bar> \<le> 0.5 * (1 / 10 ^ 9) * (\<bar>by\<bar> + \<bar>ay\<bar>)) \<longrightarrow>
                   hYmin h = ay \<and> hYmax h = by) \<and>
                ((by = ay \<or> \<bar>by - ay\<bar> \<le> 0.5 * (1 / 10 ^ 9) * (\<bar>by\<bar> + \<bar>ay\<bar>)) \<and> \<bar>ay\<bar> < 1 / 10 ^ 9 \<longrightarrow>
                   hYmin h = - 0.001 \<and> hYmax h = 0.001) \<and>
                ((by = ay \<or> \<bar>by - ay\<bar> \<le> 0.5 * (1 / 10 ^ 9) * (\<bar>by\<bar> + \<bar>ay\<bar>)) \<and> 1 / 10 ^ 9 \<le> \<bar>ay\<bar> \<longrightarrow>
                   hYmin h = ay - \<bar>ay\<bar> * (1 / 10 ^ 9 / 2) \<and> hYmax h = by + \<bar>by\<bar> * (1 / 10 ^ 9 / 2)))) \<and>
         xmin = Min (set (map fst (points g))) \<and> xmax = Max (set (map fst (points g))) \<and>
         ymin = Min (set (map (fst \<circ> snd) (points g))) \<and>
         ymax = Max (set (map (fst \<circ> snd) (points g)))"
proof -
  obtain hxmin hxmax where wx: "widen_limits ax bx = (hxmin, hxmax)"
    by (cases "widen_limits ax bx") auto
  obtain hymin hymax where wy: "widen_limits ay by = (hymin, hymax)"
    by (cases "widen_limits ay by") auto
  note cx = widen_limits_cases [OF wx]
  note cy = widen_limits_cases [OF wy]
  note main = GetHistogram_cached_or_filled [OF n u e ok x y wx [unfolded ax bx] wy [unfolded ay "by"], of ext]
  let ?reuse = "\<exists>h. fHistogram g = Some h \<and> hEntries h \<noteq> 0 \<and> kOldInterpolation g = optOld option"
  have A: "GetHistogram ext option g = Some g" if ?reuse
    using main that by blast
  have E: "xmin = Min (set (map fst (points g)))" "xmax = Max (set (map fst (points g)))"
    "ymin = Min (set (map (fst \<circ> snd) (points g)))"
    "ymax = Max (set (map (fst \<circ> snd) (points g)))"
    using main by blast+
  have B: "\<exists>g' h d. GetHistogram ext option g = Some g' \<and>
                fHistogram g' = Some h \<and> fDelaunay g' = Some d \<and> hFunctions h = [d] \<and>
                iClass d = (if optOld option then TGraphDelaunay else TGraphDelaunay2D) \<and>
                iX d = fX g \<and> iY d = fY g \<and> iZ d = fZ g \<and> iNpoints d = fNpoints g \<and>
                iZout d = fZout g \<and>
                hNbinsX h = fNpx g \<and> hNbinsY h = fNpy g \<and>
                hFills h = cell_centre_values ext d (hXmin h) (hXmax h) (hYmin h) (hYmax h)
                             (fNpx g) (fNpy g) \<and>
                hXmin h = hxmin \<and> hXmax h = hxmax \<and> hYmin h = hymin \<and> hYmax h = hymax"
    if "\<not> ?reuse"
  proof -
    from main that obtain g' h d where
      r: "GetHistogram ext option g = Some g'" "fHistogram g' = Some h" "fDelaunay g' = Some d"
        "hFunctions h = [d]"
        "iClass d = (if optOld option then TGraphDelaunay else TGraphDelaunay2D)"
        "iX d = fX g" "iY d = fY g" "iZ d = fZ g" "iNpoints d = fNpoints g" "iZout d = fZout g"
        "hNbinsX h = fNpx g" "hNbinsY h = fNpy g"
      and l: "hXmin h = hxmin" "hXmax h = hxmax" "hYmin h = hymin" "hYmax h = hymax"
      and f: "hFills h = cell_centre_values ext d hxmin hxmax hymin hymax (fNpx g) (fNpy g)"
      by blast
    from f l have "hFills h = cell_centre_values ext d (hXmin h) (hXmax h) (hYmin h) (hYmax h)
                             (fNpx g) (fNpy g)"
      by simp
    with r l show ?thesis by blast
  qed
  show ?thesis
  proof (intro conjI impI)
    assume "\<not> ?reuse"
    from B [OF this] obtain g' h d where
      r: "GetHistogram ext option g = Some g' \<and>
                fHistogram g' = Some h \<and> fDelaunay g' = Some d \<and> hFunctions h = [d] \<and>
                iClass d = (if optOld option then TGraphDelaunay else TGraphDelaunay2D) \<and>
                iX d = fX g \<and> iY d = fY g \<and> iZ d = fZ g \<and> iNpoints d = fNpoints g \<and>
                iZout d = fZout g \<and>
                hNbinsX h = fNpx g \<and> hNbinsY h = fNpy g \<and>
                hFills h = cell_centre_values ext d (hXmin h) (hXmax h) (hYmin h) (hYmax h)
                             (fNpx g) (fNpy g)"
      and l: "hXmin h = hxmin" "hXmax h = hxmax" "hYmin h = hymin" "hYmax h = hymax"
      by blast
    show "\<exists>g' h d. GetHistogram ext option g = Some g' \<and>
                fHistogram g' = Some h \<and> fDelaunay g' = Some d \<and> hFunctions h = [d] \<and>
                iClass d = (if optOld option then TGraphDelaunay else TGraphDelaunay2D) \<and>
                iX d = fX g \<and> iY d = fY g \<and> iZ d = fZ g \<and> iNpoints d = fNpoints g \<and>
                iZout d = fZout g \<and>
                hNbinsX h = fNpx g \<and> hNbinsY h = fNpy g \<and>
                hFills h = cell_centre_values ext d (hXmin h) (hXmax h) (hYmin h) (hYmax h)
                             (fNpx g) (fNpy g) \<and>
                (\<not> (bx = ax \<or> \<bar>bx - ax\<bar> \<le> 0.5 * (1 / 10 ^ 9) * (\<bar>bx\<bar> + \<bar>ax\<bar>)) \<longrightarrow>
                   hXmin h = ax \<and> hXmax h = bx) \<and>
                ((bx = ax \<or> \<bar>bx - ax\<bar> \<le> 0.5 * (1 / 10 ^ 9) * (\<bar>bx\<bar> + \<bar>ax\<bar>)) \<and> \<bar>ax\<bar> < 1 / 10 ^ 9 \<longrightarrow>
                   hXmin h = - 0.001 \<and> hXmax h = 0.001) \<and>
                ((bx = ax \<or> \<bar>bx - ax\<bar> \<le> 0.5 * (1 / 10 ^ 9) * (\<bar>bx\<bar> + \<bar>ax\<bar>)) \<and> 1 / 10 ^ 9 \<le> \<bar>ax\<bar> \<longrightarrow>
                   hXmin h = ax - \<bar>ax\<bar> * (1 / 10 ^ 9 / 2) \<and> hXmax h = bx + \<bar>bx\<bar> * (1 / 10 ^ 9 / 2)) \<and>
                (\<not> (by = ay \<or> \<bar>by - ay\<bar> \<le> 0.5 * (1 / 10 ^ 9) * (\<bar>by\<bar> + \<bar>ay\<bar>)) \<longrightarrow>
                   hYmin h = ay \<and> hYmax h = by) \<and>
                ((by = ay \<or> \<bar>by - ay\<bar> \<le> 0.5 * (1 / 10 ^ 9) * (\<bar>by\<bar> + \<bar>ay\<bar>)) \<and> \<bar>ay\<bar> < 1 / 10 ^ 9 \<longrightarrow>
                   hYmin h = - 0.001 \<and> hYmax h = 0.001) \<and>
                ((by = ay \<or> \<bar>by - ay\<bar> \<le> 0.5 * (1 / 10 ^ 9) * (\<bar>by\<bar> + \<bar>ay\<bar>)) \<and> 1 / 10 ^ 9 \<le> \<bar>ay\<bar> \<longrightarrow>
                   hYmin h = ay - \<bar>ay\<bar> * (1 / 10 ^ 9 / 2) \<and> hYmax h = by + \<bar>by\<bar> * (1 / 10 ^ 9 / 2))"
      apply (rule exI [of _ g'])
      apply (rule exI [of _ h])
      apply (rule exI [of _ d])
      using r cx [folded l] cy [folded l] apply simp
      done
  qed (use A E in blast)+
qed

theorem GetHistogram_fills_cells_witness:
  "1 \<le> fNpoints (SetNpx 4 (SetNpy 4 sample_duplicates)) \<and>
   \<not> fUserHisto (SetNpx 4 (SetNpy 4 sample_duplicates)) \<and>
   \<not> optEmpty \<lparr>optEmpty = False, optOld = False\<rparr> \<and>
   arrays_ok (SetNpx 4 (SetNpy 4 sample_duplicates)) \<and>
   GetXmin (SetNpx 4 (SetNpy 4 sample_duplicates)) = Some 1 \<and>
   GetXmax (SetNpx 4 (SetNpy 4 sample_duplicates)) = Some 2 \<and>
   GetYmin (SetNpx 4 (SetNpy 4 sample_duplicates)) = Some 1 \<and>
   GetYmax (SetNpx 4 (SetNpy 4 sample_duplicates)) = Some 3 \<and>
   fMargin (SetNpx 4 (SetNpy 4 sample_duplicates)) = 0 \<and>
   fHistogram (SetNpx 4 (SetNpy 4 sample_duplicates)) = None \<and>
   \<not> ((2::real) = 1 \<or> \<bar>2 - 1\<bar> \<le> 0.5 * (1 / 10 ^ 9) * (\<bar>2\<bar> + \<bar>1 :: real\<bar>)) \<and>
   \<not> ((3::real) = 1 \<or> \<bar>3 - 1\<bar> \<le> 0.5 * (1 / 10 ^ 9) * (\<bar>3\<bar> + \<bar>1 :: real\<bar>)) \<and>
   (\<exists>g' h d. GetHistogram sample_externals \<lparr>optEmpty = False, optOld = False\<rparr>
                (SetNpx 4 (SetNpy 4 sample_duplicates)) = Some g' \<and>
             fHistogram g' = Some h \<and> fDelaunay g' = Some d \<and>
             hNbinsX h = 4 \<and> hNbinsY h = 4 \<and>
             hXmin h = 1 \<and> hXmax h = 2 \<and> hYmin h = 1 \<and> hYmax h = 3 \<and>
             hFills h = cell_centre_values sample_externals d 1 2 1 3 4 4) \<and>
   1 \<le> fNpoints sample_column \<and> \<not> fUserHisto sample_column \<and> arrays_ok sample_column \<and>
   GetXmin sample_column = Some 5 \<and> GetXmax sample_column = Some 5 \<and>
   GetYmin sample_column = Some 1 \<and> GetYmax sample_column = Some 2 \<and>
   fMargin sample_column = 0 \<and> fHistogram sample_column = None \<and>
   ((5::real) = 5 \<or> \<bar>5 - 5\<bar> \<le> 0.5 * (1 / 10 ^ 9) * (\<bar>5\<bar> + \<bar>5 :: real\<bar>)) \<and>
   (1::real) / 10 ^ 9 \<le> \<bar>5\<bar> \<and>
   \<not> ((2::real) = 1 \<or> \<bar>2 - 1\<bar> \<le> 0.5 * (1 / 10 ^ 9) * (\<bar>2\<bar> + \<bar>1 :: real\<bar>)) \<and>
   (\<exists>g' h d. GetHistogram sample_externals \<lparr>optEmpty = False, optOld = False\<rparr> sample_column
                = Some g' \<and>
             fHistogram g' = Some h \<and> fDelaunay g' = Some d \<and>
             hXmin h = 5 - 5 * (1 / 10 ^ 9 / 2) \<and> hXmax h = 5 + 5 * (1 / 10 ^ 9 / 2) \<and>
             hYmin h = 1 \<and> hYmax h = 2 \<and>
             hFills h = cell_centre_values sample_externals d
                          (5 - 5 * (1 / 10 ^ 9 / 2)) (5 + 5 * (1 / 10 ^ 9 / 2)) 1 2 4 4) \<and>
   1 \<le> fNpoints (SetNpx 4 (SetNpy 4 sample_single)) \<and>
   \<not> fUserHisto (SetNpx 4 (SetNpy 4 sample_single)) \<and>
   arrays_ok (SetNpx 4 (SetNpy 4 sample_single)) \<and>
   GetXmin (SetNpx 4 (SetNpy 4 sample_single)) = Some 0 \<and>
   GetXmax (SetNpx 4 (SetNpy 4 sample_single)) = Some 0 \<and>
   GetYmin (SetNpx 4 (SetNpy 4 sample_single)) = Some 0 \<and>
   GetYmax (SetNpx 4 (SetNpy 4 sample_single)) = Some 0 \<and>
   fMargin (SetNpx 4 (SetNpy 4 sample_single)) = 0 \<and>
   fHistogram (SetNpx 4 (SetNpy 4 sample_single)) = None \<and>
   ((0::real) = 0 \<or> \<bar>0 - 0\<bar> \<le> 0.5 * (1 / 10 ^ 9) * (\<bar>0\<bar> + \<bar>0 :: real\<bar>)) \<and>
   \<bar>0 :: real\<bar> < 1 / 10 ^ 9 \<and>
   (\<exists>g' h d. GetHistogram sample_externals \<lparr>optEmpty = False, optOld = False\<rparr>
                (SetNpx 4 (SetNpy 4 sample_single)) = Some g' \<and>
             fHistogram g' = Some h \<and> fDelaunay g' = Some d \<and>
             hXmin h = - 0.001 \<and> hXmax h = 0.001 \<and> hYmin h = - 0.001 \<and> hYmax h = 0.001 \<and>
             hFills h = cell_centre_values sample_externals d (- 0.001) 0.001 (- 0.001) 0.001 4 4) \<and>
   1 \<le> fNpoints sample_filled \<and> \<not> fUserHisto sample_filled \<and> arrays_ok sample_filled \<and>
   GetXmin sample_filled = Some 0 \<and> GetXmax sample_filled = Some 0 \<and>
   GetYmin sample_filled = Some 0 \<and> GetYmax sample_filled = Some 0 \<and>
   map_option hEntries (fHistogram sample_filled) = Some 1 \<and>
   kOldInterpolation sample_filled = optOld \<lparr>optEmpty = False, optOld = False\<rparr> \<and>
   GetHistogram sample_externals \<lparr>optEmpty = False, optOld = False\<rparr> sample_filled
     = Some sample_filled"
proof -
  let ?o = "\<lparr>optEmpty = False, optOld = False\<rparr>"
  have e: "\<not> optEmpty ?o" by simp
  note ev = GetXmin_def GetXmax_def GetYmin_def GetYmax_def array_min_def array_max_def
    TGraph2D_default_def upt_rec
  \<comment> \<open>a regular range in both directions\<close>
  let ?g = "SetNpx 4 (SetNpy 4 sample_duplicates)"
  have g: "?g = sample_duplicates\<lparr>fNpx := 4, fNpy := 4\<rparr>"
    by (simp add: SetNpx_def SetNpy_def sample_duplicates_def TGraph2D_default_def)
  have n: "1 \<le> fNpoints ?g" and u: "\<not> fUserHisto ?g"
    and ok: "arrays_ok ?g" and m: "fMargin ?g = 0" and h: "fHistogram ?g = None"
    and np: "fNpx ?g = 4" "fNpy ?g = 4"
    unfolding g by (simp_all add: sample_duplicates_def TGraph2D_default_def arrays_ok_def)
  have x: "GetXmin ?g = Some 1" "GetXmax ?g = Some 2"
    and y: "GetYmin ?g = Some 1" "GetYmax ?g = Some 3"
    unfolding g by (simp_all add: ev sample_duplicates_def)
  have r1: "\<not> ((2::real) = 1 \<or> \<bar>2 - 1\<bar> \<le> 0.5 * (1 / 10 ^ 9) * (\<bar>2\<bar> + \<bar>1 :: real\<bar>))"
    and r2: "\<not> ((3::real) = 1 \<or> \<bar>3 - 1\<bar> \<le> 0.5 * (1 / 10 ^ 9) * (\<bar>3\<bar> + \<bar>1 :: real\<bar>))"
    by simp_all
  have a1: "(1::real) = 1 - fMargin ?g * (2 - 1)" "(2::real) = 2 + fMargin ?g * (2 - 1)"
    "(1::real) = 1 - fMargin ?g * (3 - 1)" "(3::real) = 3 + fMargin ?g * (3 - 1)"
    unfolding m by simp_all
  have nr: "\<not> (\<exists>h. fHistogram ?g = Some h \<and> hEntries h \<noteq> 0 \<and>
                     kOldInterpolation ?g = optOld ?o)"
    by (simp add: h)
  from GetHistogram_fills_cells [OF n u e ok x y a1, of sample_externals,
      THEN conjunct2, THEN conjunct1, rule_format, OF nr]
  obtain g1 h1 d1 where
    f1: "GetHistogram sample_externals ?o ?g = Some g1" "fHistogram g1 = Some h1"
      "fDelaunay g1 = Some d1" "hNbinsX h1 = fNpx ?g" "hNbinsY h1 = fNpy ?g"
      "hFills h1 = cell_centre_values sample_externals d1 (hXmin h1) (hXmax h1) (hYmin h1)
                     (hYmax h1) (fNpx ?g) (fNpy ?g)"
    and i1: "\<not> ((2::real) = 1 \<or> \<bar>2 - 1\<bar> \<le> 0.5 * (1 / 10 ^ 9) * (\<bar>2\<bar> + \<bar>1 :: real\<bar>)) \<longrightarrow>
               hXmin h1 = 1 \<and> hXmax h1 = 2"
      "\<not> ((3::real) = 1 \<or> \<bar>3 - 1\<bar> \<le> 0.5 * (1 / 10 ^ 9) * (\<bar>3\<bar> + \<bar>1 :: real\<bar>)) \<longrightarrow>
               hYmin h1 = 1 \<and> hYmax h1 = 3"
    by blast
  from i1 r1 r2 have l1: "hXmin h1 = 1" "hXmax h1 = 2" "hYmin h1 = 1" "hYmax h1 = 3"
    by blast+
  from f1 l1 np
  have regular: "\<exists>g' h d. GetHistogram sample_externals ?o ?g = Some g' \<and>
             fHistogram g' = Some h \<and> fDelaunay g' = Some d \<and>
             hNbinsX h = 4 \<and> hNbinsY h = 4 \<and>
             hXmin h = 1 \<and> hXmax h = 2 \<and> hYmin h = 1 \<and> hYmax h = 3 \<and>
             hFills h = cell_centre_values sample_externals d 1 2 1 3 4 4"
    by simp
  \<comment> \<open>a degenerate range away from zero\<close>
  have nc: "1 \<le> fNpoints sample_column" and uc: "\<not> fUserHisto sample_column"
    and okc: "arrays_ok sample_column" and mc: "fMargin sample_column = 0"
    and hc: "fHistogram sample_column = None"
    and npc: "fNpx sample_column = 4" "fNpy sample_column = 4"
    by (simp_all add: sample_column_def TGraph2D_default_def arrays_ok_def)
  have xc: "GetXmin sample_column = Some 5" "GetXmax sample_column = Some 5"
    and yc: "GetYmin sample_column = Some 1" "GetYmax sample_column = Some 2"
    by (simp_all add: ev sample_column_def)
  have d5: "(5::real) = 5 \<or> \<bar>5 - 5\<bar> \<le> 0.5 * (1 / 10 ^ 9) * (\<bar>5\<bar> + \<bar>5 :: real\<bar>)"
    and b5: "(1::real) / 10 ^ 9 \<le> \<bar>5\<bar>"
    by simp_all
  have ac: "(5::real) = 5 - fMargin sample_column * (5 - 5)"
    "(5::real) = 5 + fMargin sample_column * (5 - 5)"
    "(1::real) = 1 - fMargin sample_column * (2 - 1)"
    "(2::real) = 2 + fMargin sample_column * (2 - 1)"
    unfolding mc by simp_all
  have nrc: "\<not> (\<exists>h. fHistogram sample_column = Some h \<and> hEntries h \<noteq> 0 \<and>
                      kOldInterpolation sample_column = optOld ?o)"
    by (simp add: hc)
  from GetHistogram_fills_cells [OF nc uc e okc xc yc ac, of sample_externals,
      THEN conjunct2, THEN conjunct1, rule_format, OF nrc]
  obtain g2 h2 d2 where
    f2: "GetHistogram sample_externals ?o sample_column = Some g2" "fHistogram g2 = Some h2"
      "fDelaunay g2 = Some d2"
      "hFills h2 = cell_centre_values sample_externals d2 (hXmin h2) (hXmax h2) (hYmin h2)
                     (hYmax h2) (fNpx sample_column) (fNpy sample_column)"
    and i2: "((5::real) = 5 \<or> \<bar>5 - 5\<bar> \<le> 0.5 * (1 / 10 ^ 9) * (\<bar>5\<bar> + \<bar>5 :: real\<bar>)) \<and>
               1 / 10 ^ 9 \<le> \<bar>5 :: real\<bar> \<longrightarrow>
               hXmin h2 = 5 - \<bar>5\<bar> * (1 / 10 ^ 9 / 2) \<and> hXmax h2 = 5 + \<bar>5\<bar> * (1 / 10 ^ 9 / 2)"
      "\<not> ((2::real) = 1 \<or> \<bar>2 - 1\<bar> \<le> 0.5 * (1 / 10 ^ 9) * (\<bar>2\<bar> + \<bar>1 :: real\<bar>)) \<longrightarrow>
               hYmin h2 = 1 \<and> hYmax h2 = 2"
    by blast
  from i2 d5 b5 r1 have l2: "hXmin h2 = 5 - \<bar>5\<bar> * (1 / 10 ^ 9 / 2)"
    "hXmax h2 = 5 + \<bar>5\<bar> * (1 / 10 ^ 9 / 2)" "hYmin h2 = 1" "hYmax h2 = 2"
    by blast+
  have a5: "\<bar>5 :: real\<bar> = 5" by simp
  from f2 l2 [unfolded a5] npc
  have column: "\<exists>g' h d. GetHistogram sample_externals ?o sample_column = Some g' \<and>
             fHistogram g' = Some h \<and> fDelaunay g' = Some d \<and>
             hXmin h = 5 - 5 * (1 / 10 ^ 9 / 2) \<and> hXmax h = 5 + 5 * (1 / 10 ^ 9 / 2) \<and>
             hYmin h = 1 \<and> hYmax h = 2 \<and>
             hFills h = cell_centre_values sample_externals d
                          (5 - 5 * (1 / 10 ^ 9 / 2)) (5 + 5 * (1 / 10 ^ 9 / 2)) 1 2 4 4"
    by (intro exI [of _ g2] exI [of _ h2] exI [of _ d2]) (simp only: simp_thms)
  \<comment> \<open>a degenerate range at zero\<close>
  let ?s = "SetNpx 4 (SetNpy 4 sample_single)"
  have s: "?s = sample_single\<lparr>fNpx := 4, fNpy := 4\<rparr>"
    by (simp add: SetNpx_def SetNpy_def sample_single_def TGraph2D_default_def)
  have ns: "1 \<le> fNpoints ?s" and us: "\<not> fUserHisto ?s"
    and oks: "arrays_ok ?s" and ms: "fMargin ?s = 0" and hs: "fHistogram ?s = None"
    and nps: "fNpx ?s = 4" "fNpy ?s = 4"
    unfolding s by (simp_all add: sample_single_def TGraph2D_default_def arrays_ok_def)
  have xs: "GetXmin ?s = Some 0" "GetXmax ?s = Some 0"
    and ys: "GetYmin ?s = Some 0" "GetYmax ?s = Some 0"
    unfolding s by (simp_all add: ev sample_single_def)
  have d0: "(0::real) = 0 \<or> \<bar>0 - 0\<bar> \<le> 0.5 * (1 / 10 ^ 9) * (\<bar>0\<bar> + \<bar>0 :: real\<bar>)"
    and b0: "\<bar>0 :: real\<bar> < 1 / 10 ^ 9"
    by simp_all
  have as: "(0::real) = 0 - fMargin ?s * (0 - 0)" "(0::real) = 0 + fMargin ?s * (0 - 0)"
    by simp_all
  have nrs: "\<not> (\<exists>h. fHistogram ?s = Some h \<and> hEntries h \<noteq> 0 \<and>
                      kOldInterpolation ?s = optOld ?o)"
    by (simp add: hs)
  from GetHistogram_fills_cells [OF ns us e oks xs ys as as, of sample_externals,
      THEN conjunct2, THEN conjunct1, rule_format, OF nrs]
  obtain g3 h3 d3 where
    f3: "GetHistogram sample_externals ?o ?s = Some g3" "fHistogram g3 = Some h3"
      "fDelaunay g3 = Some d3"
      "hFills h3 = cell_centre_values sample_externals d3 (hXmin h3) (hXmax h3) (hYmin h3)
                     (hYmax h3) (fNpx ?s) (fNpy ?s)"
    and i3: "((0::real) = 0 \<or> \<bar>0 - 0\<bar> \<le> 0.5 * (1 / 10 ^ 9) * (\<bar>0\<bar> + \<bar>0 :: real\<bar>)) \<and>
               \<bar>0 :: real\<bar> < 1 / 10 ^ 9 \<longrightarrow> hXmin h3 = - 0.001 \<and> hXmax h3 = 0.001"
      "((0::real) = 0 \<or> \<bar>0 - 0\<bar> \<le> 0.5 * (1 / 10 ^ 9) * (\<bar>0\<bar> + \<bar>0 :: real\<bar>)) \<and>
               \<bar>0 :: real\<bar> < 1 / 10 ^ 9 \<longrightarrow> hYmin h3 = - 0.001 \<and> hYmax h3 = 0.001"
    by blast
  from i3 d0 b0 have l3: "hXmin h3 = - 0.001" "hXmax h3 = 0.001" "hYmin h3 = - 0.001"
    "hYmax h3 = 0.001"
    by blast+
  from f3 l3 nps
  have single: "\<exists>g' h d. GetHistogram sample_externals ?o ?s = Some g' \<and>
             fHistogram g' = Some h \<and> fDelaunay g' = Some d \<and>
             hXmin h = - 0.001 \<and> hXmax h = 0.001 \<and> hYmin h = - 0.001 \<and> hYmax h = 0.001 \<and>
             hFills h = cell_centre_values sample_externals d (- 0.001) 0.001 (- 0.001) 0.001 4 4"
    by (intro exI [of _ g3] exI [of _ h3] exI [of _ d3]) (simp only: simp_thms)
  \<comment> \<open>a histogram with entries\<close>
  have f: "sample_filled = sample_cached\<lparr>fHistogram :=
             Some (Fill (the (fHistogram sample_cached)) 0 0 (Num 0))\<rparr>"
    by (simp add: sample_filled_def sample_cached_def)
  have n': "1 \<le> fNpoints sample_filled" and u': "\<not> fUserHisto sample_filled"
    and ok': "arrays_ok sample_filled"
    and k': "kOldInterpolation sample_filled = optOld ?o"
    and c': "map_option hEntries (fHistogram sample_filled) = Some 1"
    unfolding f
    by (simp_all add: sample_cached_def TGraph2D_default_def arrays_ok_def Fill_def new_TH2D_def)
  have x': "GetXmin sample_filled = Some 0" "GetXmax sample_filled = Some 0"
    and y': "GetYmin sample_filled = Some 0" "GetYmax sample_filled = Some 0"
    unfolding f by (simp_all add: ev sample_cached_def)
  have af: "(0::real) = 0 - fMargin sample_filled * (0 - 0)"
    "(0::real) = 0 + fMargin sample_filled * (0 - 0)"
    by simp_all
  from c' obtain hf where hf: "fHistogram sample_filled = Some hf" "hEntries hf = 1"
    by (cases "fHistogram sample_filled") auto
  from GetHistogram_fills_cells [OF n' u' e ok' x' y' af af, of sample_externals] hf k'
  have reuse: "GetHistogram sample_externals ?o sample_filled = Some sample_filled"
    by simp
  from regular column single reuse e n u ok x y m h r1 r2 nc uc okc xc yc mc hc d5 b5
    ns us oks xs ys ms hs d0 b0 n' u' ok' x' y' c' k'
  show ?thesis by (intro conjI) assumption+
qed

text \<open>
  C3 as stated fails in two ways. On a graph with one sample \<open>(0, 0, 0)\<close>, margin 0 and a
  grid of \<open>4 \<times> 4\<close> the margin-expanded range is \<open>[0, 0]\<close>, whose only cell centre is 0,
  but the histogram is booked on \<open>[-0.001, 0.001]\<close> and the first \<^verbatim>\<open>Fill\<close> is at
  \<open>(-0.00075, -0.00075)\<close>. On a graph whose histogram already has an entry, here one
  \<^verbatim>\<open>Fill(0, 0, 0)\<close> made through the pointer that \<^verbatim>\<open>GetHistogram("empty")\<close> returned,
  \<^verbatim>\<open>GetHistogram\<close> fills nothing: the histogram returned holds that one entry and not
  one per cell of the \<open>40 \<times> 40\<close> grid.
\<close>

theorem GetHistogram_degenerate_or_cached:
  "fNpoints (SetNpx 4 (SetNpy 4 sample_single)) = 1 \<and>
   \<not> fUserHisto (SetNpx 4 (SetNpy 4 sample_single)) \<and>
   fMargin (SetNpx 4 (SetNpy 4 sample_single)) = 0 \<and>
   GetXmin (SetNpx 4 (SetNpy 4 sample_single)) = Some 0 \<and>
   GetXmax (SetNpx 4 (SetNpy 4 sample_single)) = Some 0 \<and>
   map_option hXmin (GetHistogram_returned sample_externals \<lparr>optEmpty = False, optOld = False\<rparr>
                       (SetNpx 4 (SetNpy 4 sample_single))) = Some (- 0.001) \<and>
   map_option hXmax (GetHistogram_returned sample_externals \<lparr>optEmpty = False, optOld = False\<rparr>
                       (SetNpx 4 (SetNpy 4 sample_single))) = Some 0.001 \<and>
   map_option (hd \<circ> hFills)
     (GetHistogram_returned sample_externals \<lparr>optEmpty = False, optOld = False\<rparr>
        (SetNpx 4 (SetNpy 4 sample_single))) = Some (- 0.00075, - 0.00075, Num 0) \<and>
   (- 0.00075 :: real) \<noteq> (0 - 0 * (0 - 0)) + (1 - 0.5) * (((0 + 0 * (0 - 0)) - (0 - 0 * (0 - 0))) / 4) \<and>
   fNpoints sample_filled = 1 \<and> \<not> fUserHisto sample_filled \<and>
   fNpx sample_filled = 40 \<and> fNpy sample_filled = 40 \<and>
   map_option hFills (GetHistogram_returned sample_externals \<lparr>optEmpty = False, optOld = False\<rparr>
                        sample_filled) = Some [(0, 0, Num 0)] \<and>
   length [(0 :: real, 0 :: real, Num 0)] \<noteq> 40 * 40"
  by (simp add: GetHistogram_returned_def SetNpx_def SetNpy_def sample_single_def
      TGraph2D_default_def GetHistogram_def GetHistogram_existing_def GetHistogram_book_def
      GetXmaxE_def GetXminE_def GetYmaxE_def GetYminE_def GetZmaxE_def GetZminE_def
      GetXmax_def GetXmin_def GetYmax_def GetYmin_def GetZmax_def GetZmin_def
      array_max_def array_min_def widen_limits_def AreEqualRel_def Let_def
      CreateInterpolator_def new_TH2D_def FindObject_def GetHistogram_fill_def
      fill_grid_eq upto_1_4 set_z_range_def sample_externals_def
      sample_filled_def sample_cached_def Fill_def)

section \<open>Removing duplicates\<close>

lemma length_points: "length (points g) = nat (fNpoints g)"
  by (simp add: points_def)

lemma nth_points: "i < nat (fNpoints g) \<Longrightarrow> points g ! i = point g i"
  by (simp add: points_def)

lemma RemovePoint_points:
  assumes ok: "arrays_ok g" and ip: "0 \<le> ipoint" "ipoint < fNpoints g"
  shows "\<exists>g'. RemovePoint g ipoint = Some (ipoint, g') \<and> arrays_ok g' \<and>
           fNpoints g' = fNpoints g - 1 \<and>
           points g' = take (nat ipoint) (points g) @ drop (Suc (nat ipoint)) (points g)"
proof -
  from ok obtain xs ys zs where a: "fX g = Some xs" "fY g = Some ys" "fZ g = Some zs"
    and l: "fNpoints g \<le> int (length xs)" "fNpoints g \<le> int (length ys)"
      "fNpoints g \<le> int (length zs)"
    by (rule arrays_okE)
  from RemovePoint_loop_ok [OF ok ip(1)] a obtain xs' ys' zs' where
    loop: "RemovePoint_loop ipoint g = Some (g\<lparr>fX := Some xs', fY := Some ys', fZ := Some zs'\<rparr>)"
    and sh: "shifted (nat ipoint) (fNpoints g) xs xs'" "shifted (nat ipoint) (fNpoints g) ys ys'"
      "shifted (nat ipoint) (fNpoints g) zs zs'"
    by auto
  let ?g2 = "g\<lparr>fX := Some xs', fY := Some ys', fZ := Some zs', fNpoints := fNpoints g - 1\<rparr>"
  define g3 where
    "g3 = (if fHistogram ?g2 \<noteq> None then ?g2\<lparr>fHistogram := None, fDelaunay := None\<rparr> else ?g2)"
  have res: "RemovePoint g ipoint = Some (ipoint, g3)"
    using ip loop by (simp add: RemovePoint_def Let_def g3_def)
  have n: "fNpoints g3 = fNpoints g - 1" by (simp add: g3_def)
  have arr: "fX g3 = Some xs'" "fY g3 = Some ys'" "fZ g3 = Some zs'" by (simp_all add: g3_def)
  have ok3: "arrays_ok g3"
    using sh l unfolding arrays_ok_def arr n shifted_def by simp
  have pt: "point g3 i = (if i < nat ipoint then point g i else point g (Suc i))"
    if "int i < fNpoints g - 1" for i
    using that sh l ip unfolding point_def arr a shifted_def by simp
  have "points g3 = take (nat ipoint) (points g) @ drop (Suc (nat ipoint)) (points g)"
  proof (rule nth_equalityI)
    show "length (points g3) =
            length (take (nat ipoint) (points g) @ drop (Suc (nat ipoint)) (points g))"
      using ip unfolding length_append length_take length_drop length_points n by simp
  next
    fix i
    assume "i < length (points g3)"
    then have i: "int i < fNpoints g - 1" unfolding length_points n by simp
    then have "points g3 ! i = point g3 i" by (intro nth_points) (simp add: n)
    also have "\<dots> = (if i < nat ipoint then point g i else point g (Suc i))" by (rule pt [OF i])
    also have "\<dots> = (take (nat ipoint) (points g) @ drop (Suc (nat ipoint)) (points g)) ! i"
      using i ip by (simp add: nth_append length_points nth_points)
    finally show "points g3 ! i =
        (take (nat ipoint) (points g) @ drop (Suc (nat ipoint)) (points g)) ! i" .
  qed
  with res ok3 n show ?thesis by blast
qed


lemma array_get_point:
  assumes ok: "arrays_ok g" and j: "0 \<le> j" "j < fNpoints g"
  shows "array_get (fX g) j = Some (fst (point g (nat j)))"
    and "array_get (fY g) j = Some (fst (snd (point g (nat j))))"
proof -
  from ok obtain xs ys zs where a: "fX g = Some xs" "fY g = Some ys" "fZ g = Some zs"
    and l: "fNpoints g \<le> int (length xs)" "fNpoints g \<le> int (length ys)"
      "fNpoints g \<le> int (length zs)"
    by (rule arrays_okE)
  from a l j show "array_get (fX g) j = Some (fst (point g (nat j)))"
    and "array_get (fY g) j = Some (fst (snd (point g (nat j))))"
    by (simp_all add: array_get_def point_def)
qed

lemma RemoveDuplicates_inner_points:
  assumes "arrays_ok g" "0 \<le> j" "j \<le> fNpoints g"
  shows "\<exists>g'. RemoveDuplicates_inner x y j g = Some g' \<and> arrays_ok g' \<and>
           j \<le> fNpoints g' \<and> fNpoints g' \<le> fNpoints g \<and>
           points g' = take (nat j) (points g) @
                       filter (\<lambda>p. \<not> (x = fst p \<and> y = fst (snd p))) (drop (nat j) (points g))"
  using assms
proof (induction "nat (fNpoints g - j)" arbitrary: j g)
  case 0
  then have "j = fNpoints g" by simp
  with 0 show ?case
    by (subst RemoveDuplicates_inner.simps) (simp add: length_points)
next
  case (Suc k)
  let ?P = "\<lambda>p. \<not> (x = fst p \<and> y = fst (snd p))"
  from Suc.hyps(2) have lt: "j < fNpoints g" by simp
  with Suc.prems have jn: "nat j < length (points g)" by (simp add: length_points)
  have pj: "points g ! nat j = point g (nat j)"
    using jn by (simp add: nth_points length_points)
  have dr: "drop (nat j) (points g) = point g (nat j) # drop (Suc (nat j)) (points g)"
    using jn pj by (metis Cons_nth_drop_Suc)
  note ag = array_get_point [OF Suc.prems(1,2) lt]
  show ?case
  proof (cases "x = fst (point g (nat j)) \<and> y = fst (snd (point g (nat j)))")
    case True
    from RemovePoint_points [OF Suc.prems(1,2) lt] obtain g1 where
      r: "RemovePoint g j = Some (j, g1)" and ok1: "arrays_ok g1"
      and n1: "fNpoints g1 = fNpoints g - 1"
      and p1: "points g1 = take (nat j) (points g) @ drop (Suc (nat j)) (points g)"
      by blast
    have k: "k = nat (fNpoints g1 - j)" using Suc.hyps(2) n1 by simp
    have j1: "j \<le> fNpoints g1" using lt n1 by simp
    from Suc.hyps(1) [OF k ok1 Suc.prems(2) j1] obtain g' where
      i: "RemoveDuplicates_inner x y j g1 = Some g'" and ok': "arrays_ok g'"
      and b: "j \<le> fNpoints g'" "fNpoints g' \<le> fNpoints g1"
      and p': "points g' = take (nat j) (points g1) @ filter ?P (drop (nat j) (points g1))"
      by blast
    have "RemoveDuplicates_inner x y j g = Some g'"
      using lt ag True r i by (subst RemoveDuplicates_inner.simps) simp
    moreover have "points g' = take (nat j) (points g) @ filter ?P (drop (nat j) (points g))"
      using p' p1 jn True by (simp add: dr min_def)
    ultimately show ?thesis using ok' b n1 by auto
  next
    case False
    have k: "k = nat (fNpoints g - (j + 1))" using Suc.hyps(2) by simp
    have j1: "0 \<le> j + 1" "j + 1 \<le> fNpoints g" using lt Suc.prems(2) by simp_all
    from Suc.hyps(1) [OF k Suc.prems(1) j1] obtain g' where
      i: "RemoveDuplicates_inner x y (j + 1) g = Some g'" and ok': "arrays_ok g'"
      and b: "j + 1 \<le> fNpoints g'" "fNpoints g' \<le> fNpoints g"
      and p': "points g' = take (nat (j + 1)) (points g) @ filter ?P (drop (nat (j + 1)) (points g))"
      by blast
    have nj: "nat (j + 1) = Suc (nat j)" using Suc.prems(2) by simp
    have "RemoveDuplicates_inner x y j g = Some g'"
      using lt ag False i by (subst RemoveDuplicates_inner.simps) auto
    moreover have "points g' = take (nat j) (points g) @ filter ?P (drop (nat j) (points g))"
      using p' jn False pj unfolding nj dr by (simp add: take_Suc_conv_app_nth)
    ultimately show ?thesis using ok' b by auto
  qed
qed


lemma RemoveDuplicates_outer_points:
  assumes "arrays_ok g" "0 \<le> i"
  shows "\<exists>g'. RemoveDuplicates_outer i g = Some g' \<and> arrays_ok g' \<and>
           points g' = take (nat i) (points g) @ sweep (drop (nat i) (points g))"
  using assms
proof (induction "nat (fNpoints g - i)" arbitrary: i g rule: less_induct)
  case less
  show ?case
  proof (cases "i < fNpoints g")
    case False
    with less.prems show ?thesis
      by (subst RemoveDuplicates_outer.simps) (simp add: length_points)
  next
    case lt: True
    with less.prems have jn: "nat i < length (points g)" by (simp add: length_points)
    have pj: "points g ! nat i = point g (nat i)"
      using jn by (simp add: nth_points length_points)
    have dr: "drop (nat i) (points g) = point g (nat i) # drop (Suc (nat i)) (points g)"
      using jn pj by (metis Cons_nth_drop_Suc)
    note ag = array_get_point [OF less.prems(1,2) lt]
    let ?x = "fst (point g (nat i))"
    let ?y = "fst (snd (point g (nat i)))"
    let ?P = "\<lambda>p. \<not> (?x = fst p \<and> ?y = fst (snd p))"
    have i1: "0 \<le> i + 1" "i + 1 \<le> fNpoints g" using lt less.prems(2) by simp_all
    have ni: "nat (i + 1) = Suc (nat i)" using less.prems(2) by simp
    from RemoveDuplicates_inner_points [OF less.prems(1) i1, of ?x ?y] obtain g1 where
      inner: "RemoveDuplicates_inner ?x ?y (i + 1) g = Some g1" and ok1: "arrays_ok g1"
      and b: "i + 1 \<le> fNpoints g1" "fNpoints g1 \<le> fNpoints g"
      and p1: "points g1 = take (Suc (nat i)) (points g) @
                           filter ?P (drop (Suc (nat i)) (points g))"
      unfolding ni by blast
    have m: "nat (fNpoints g1 - (i + 1)) < nat (fNpoints g - i)" using b lt by simp
    from less.hyps [OF m ok1 i1(1)] obtain g' where
      outer: "RemoveDuplicates_outer (i + 1) g1 = Some g'" and ok': "arrays_ok g'"
      and p': "points g' = take (Suc (nat i)) (points g1) @ sweep (drop (Suc (nat i)) (points g1))"
      unfolding ni by blast
    have "RemoveDuplicates_outer i g = Some g'"
      using lt ag inner outer by (subst RemoveDuplicates_outer.simps) simp
    moreover have "same_xy (point g (nat i)) = (\<lambda>p. ?x = fst p \<and> ?y = fst (snd p))"
      by (simp add: same_xy_def fun_eq_iff)
    then have "points g' = take (nat i) (points g) @ sweep (drop (nat i) (points g))"
      using p' p1 jn unfolding dr by (simp add: take_Suc_conv_app_nth pj min_def)
    ultimately show ?thesis using ok' by blast
  qed
qed

lemma sweep_filter:
  "sweep (filter (\<lambda>q. \<not> same_xy p q) ps) = filter (\<lambda>q. \<not> same_xy p q) (sweep ps)"
proof (induction ps rule: sweep.induct)
  case 1
  show ?case by simp
next
  case (2 a ps)
  have c: "filter (\<lambda>q. \<not> same_xy a q) (filter (\<lambda>q. \<not> same_xy p q) ps) =
           filter (\<lambda>q. \<not> same_xy p q) (filter (\<lambda>q. \<not> same_xy a q) ps)"
    by (simp add: conj_commute)
  show ?case
  proof (cases "same_xy p a")
    case True
    then have "same_xy p q \<longleftrightarrow> same_xy a q" for q by (auto simp: same_xy_def)
    then have e: "(\<lambda>q. \<not> same_xy p q) = (\<lambda>q. \<not> same_xy a q)" by simp
    show ?thesis using True "2.IH" unfolding e by simp
  next
    case False
    with "2.IH" c show ?thesis by simp
  qed
qed


lemma sweep_Cons: "sweep (p # ps) = p # filter (\<lambda>q. \<not> same_xy p q) (sweep ps)"
  by (simp add: sweep_filter)

lemma first_occurrences_Cons:
  "first_occurrences (p # ps) = p # filter (\<lambda>q. \<not> same_xy p q) (first_occurrences ps)"
proof -
  let ?C = "\<lambda>i. list_all (\<lambda>j. \<not> same_xy ((p # ps) ! j) ((p # ps) ! i)) [0..<i]"
  let ?K = "\<lambda>i. list_all (\<lambda>j. \<not> same_xy (ps ! j) (ps ! i)) [0..<i]"
  have up: "[0..<Suc n] = 0 # map Suc [0..<n]" for n
    by (simp add: upt_conv_Cons map_Suc_upt del: upt_Suc)
  have C: "list_all (\<lambda>j. \<not> same_xy ((p # ps) ! j) (ps ! i)) [0..<Suc i] \<longleftrightarrow>
             \<not> same_xy p (ps ! i) \<and> ?K i" for i
  proof -
    have "list_all (\<lambda>j. \<not> same_xy ((p # ps) ! j) (ps ! i)) [0..<Suc i] \<longleftrightarrow>
            list_all (\<lambda>j. \<not> same_xy ((p # ps) ! j) (ps ! i)) (0 # map Suc [0..<i])"
      by (simp only: up)
    also have "\<dots> \<longleftrightarrow> \<not> same_xy p (ps ! i) \<and> ?K i"
      by (simp only: list.pred_inject list.pred_map comp_def nth_Cons_0 nth_Cons_Suc)
    finally show ?thesis .
  qed
  have "first_occurrences (p # ps) =
          map (\<lambda>i. (p # ps) ! i) (filter ?C (0 # map Suc [0..<length ps]))"
    unfolding first_occurrences_def by (simp only: length_Cons up)
  also have "\<dots> = p # map (\<lambda>i. ps ! i) (filter (\<lambda>i. \<not> same_xy p (ps ! i) \<and> ?K i) [0..<length ps])"
    by (simp add: filter_map comp_def C del: upt_Suc)
  also have "map (\<lambda>i. ps ! i) (filter (\<lambda>i. \<not> same_xy p (ps ! i) \<and> ?K i) [0..<length ps]) =
             filter (\<lambda>q. \<not> same_xy p q) (first_occurrences ps)"
    unfolding first_occurrences_def by (simp add: filter_map comp_def conj_commute)
  finally show ?thesis .
qed

lemma sweep_first_occurrences: "sweep ps = first_occurrences ps"
proof (induction ps)
  case Nil
  show ?case by (simp add: first_occurrences_def)
next
  case (Cons p ps)
  then show ?case by (simp only: sweep_Cons first_occurrences_Cons)
qed

lemma set_sweep: "set (sweep ps) \<subseteq> set ps"
  by (induction ps rule: sweep.induct) auto

lemma sweep_no_duplicates:
  "i < j \<Longrightarrow> j < length (sweep ps) \<Longrightarrow> \<not> same_xy (sweep ps ! i) (sweep ps ! j)"
proof (induction ps arbitrary: i j rule: sweep.induct)
  case 1
  then show ?case by simp
next
  case (2 p ps)
  let ?r = "sweep (filter (\<lambda>q. \<not> same_xy p q) ps)"
  from "2.prems" obtain j' where j: "j = Suc j'" "j' < length ?r" by (cases j) auto
  show ?case
  proof (cases i)
    case 0
    from j(2) have "?r ! j' \<in> set ?r" by simp
    with set_sweep have "?r ! j' \<in> set (filter (\<lambda>q. \<not> same_xy p q) ps)" by blast
    then show ?thesis using 0 j by simp
  next
    case (Suc i')
    with "2.prems" j have "i' < j'" by simp
    from "2.IH" [OF this j(2)] Suc j show ?thesis by simp
  qed
qed

text \<open>
  C7: on a graph with well-formed arrays \<^verbatim>\<open>RemoveDuplicates()\<close> returns, and it returns
  the new \<open>fNpoints\<close>, which is the number of samples left. The samples left are, in
  their former order, exactly the samples that had no sample with the same \<open>(x, y)\<close> at a
  lower index; no two of them share their \<open>(x, y)\<close>.
\<close>

theorem RemoveDuplicates_keeps_first:
  assumes ok: "arrays_ok g"
  shows "\<exists>g'. RemoveDuplicates g = Some (fNpoints g', g') \<and> arrays_ok g' \<and>
           points g' = first_occurrences (points g) \<and>
           (0 \<le> fNpoints g \<longrightarrow> fNpoints g' = int (length (points g'))) \<and>
           (\<forall>i j. i < j \<and> j < length (points g') \<longrightarrow>
                  \<not> same_xy (points g' ! i) (points g' ! j))"
proof -
  from RemoveDuplicates_outer_points [OF ok, of 0] obtain g' where
    o: "RemoveDuplicates_outer 0 g = Some g'" and ok': "arrays_ok g'"
    and p: "points g' = sweep (points g)"
    by auto
  have r: "RemoveDuplicates g = Some (fNpoints g', g')"
    using o by (simp add: RemoveDuplicates_def)
  have f: "points g' = first_occurrences (points g)"
    using p by (simp add: sweep_first_occurrences)
  have d: "\<not> same_xy (points g' ! i) (points g' ! j)" if "i < j" "j < length (points g')" for i j
    using sweep_no_duplicates [of i j "points g"] that unfolding p by simp
  have n: "fNpoints g' = int (length (points g'))" if "0 \<le> fNpoints g"
  proof (cases "0 < fNpoints g")
    case False
    with that o show ?thesis
      by (subst (asm) RemoveDuplicates_outer.simps) (auto simp: length_points)
  next
    case True
    then have "points g \<noteq> []" by (simp add: points_def)
    then have "sweep (points g) \<noteq> []" by (cases "points g") simp_all
    with p have "0 < nat (fNpoints g')" by (simp add: length_points [symmetric])
    then show ?thesis by (simp add: length_points)
  qed
  from r ok' f d n show ?thesis by blast
qed


theorem RemoveDuplicates_keeps_first_witness:
  "arrays_ok sample_duplicates \<and> 0 \<le> fNpoints sample_duplicates \<and>
   points sample_duplicates = [(1, 1, 10), (2, 2, 20), (1, 1, 30), (2, 3, 40)] \<and>
   (\<exists>g'. RemoveDuplicates sample_duplicates = Some (3, g') \<and>
         points g' = [(1, 1, 10), (2, 2, 20), (2, 3, 40)])"
proof -
  have ok: "arrays_ok sample_duplicates" and n: "0 \<le> fNpoints sample_duplicates"
    by (simp_all add: sample_duplicates_def TGraph2D_default_def arrays_ok_def)
  have p: "points sample_duplicates = [(1, 1, 10), (2, 2, 20), (1, 1, 30), (2, 3, 40)]"
    by (simp add: points_def point_def sample_duplicates_def upt_rec)
  have f: "first_occurrences [(1, 1, 10), (2, 2, 20), (1, 1, 30), (2, 3, 40)] =
             [(1, 1, 10), (2, 2, 20), (2, 3, 40 :: real)]"
    by (simp add: first_occurrences_def same_xy_def upt_rec)
  from RemoveDuplicates_keeps_first [OF ok] n obtain g' where
    "RemoveDuplicates sample_duplicates = Some (fNpoints g', g')"
    "points g' = first_occurrences (points sample_duplicates)"
    "fNpoints g' = int (length (points g'))"
    by blast
  with p f have "RemoveDuplicates sample_duplicates = Some (3, g') \<and>
         points g' = [(1, 1, 10), (2, 2, 20), (2, 3, 40)]"
    by simp
  with ok n p show ?thesis by blast
qed

end
